theory Spec2Isabelle
  imports Complex_Main
begin

section \<open>Challenge state machine (context/GameContext)\<close>

text \<open>
  The game context keeps one state object and changes it only through \<open>gameReducer\<close>.
  Phases and challenge identifiers are JavaScript strings, so they stay strings here: a
  caller may pass any identifier, also one that is not in \<open>CHALLENGE_ORDER\<close>.
  Values the reducer only stores (challenge results, progress entries) are of an arbitrary
  type \<open>'v\<close>; the initial state has them as JSON values. Every \<open>Date.now()\<close> reading
  is carried by the action that uses it.
\<close>

datatype json =
    JNull
  | JBool bool
  | JNum real
  | JStr string
  | JArr "json list"
  | JObj "(string \<times> json) list"

definition CHALLENGE_ORDER :: "string list" where
  "CHALLENGE_ORDER =
     [''intro'', ''color-blindness'', ''visual-acuity'', ''motor-skills'',
      ''knowledge-quiz'', ''profile-complete'']"

record trait =
  trait_id :: string
  trait_name :: string
  trait_icon :: string
  trait_description :: string

text \<open>
  \<open>PROFILE_TRAITS[challengeId]\<close> is a property read on an object literal: for a key
  that is not one of the four it still finds the members the object inherits from
  \<open>Object.prototype\<close>, which are functions (and, for \<open>__proto__\<close>, the prototype
  itself), all truthy. So what the lookup returns, and what \<open>UNLOCK_TRAIT\<close> stores, is
  a trait or such a member, named here by its key.
\<close>

datatype trait_value = TraitObject trait | PrototypeMember string

definition OBJECT_PROTOTYPE_KEYS :: "string list" where
  "OBJECT_PROTOTYPE_KEYS =
     [''constructor'', ''__defineGetter__'', ''__defineSetter__'', ''hasOwnProperty'',
      ''__lookupGetter__'', ''__lookupSetter__'', ''isPrototypeOf'', ''propertyIsEnumerable'',
      ''toString'', ''valueOf'', ''__proto__'', ''toLocaleString'']"

text \<open>The icons of the source are emoji; they are written here by their code points.\<close>

definition PROFILE_TRAITS :: "string \<Rightarrow> trait_value option" where
  "PROFILE_TRAITS k =
     (if k = ''color-blindness'' then
        Some (TraitObject
          \<lparr>trait_id = ''perception'', trait_name = ''Pattern Vision'',
           trait_icon = ''U+1F3A8'', trait_description = ''Master of hidden patterns''\<rparr>)
      else if k = ''visual-acuity'' then
        Some (TraitObject
          \<lparr>trait_id = ''clarity'', trait_name = ''Eagle Eye'',
           trait_icon = ''U+1F985'', trait_description = ''Sharp focus and precision''\<rparr>)
      else if k = ''motor-skills'' then
        Some (TraitObject
          \<lparr>trait_id = ''reflexes'', trait_name = ''Lightning Reflexes'',
           trait_icon = ''U+26A1'', trait_description = ''Quick reactions under pressure''\<rparr>)
      else if k = ''knowledge-quiz'' then
        Some (TraitObject
          \<lparr>trait_id = ''literacy'', trait_name = ''Tech Guru'',
           trait_icon = ''U+1F9E0'', trait_description = ''Digital wisdom unlocked''\<rparr>)
      else if k \<in> set OBJECT_PROTOTYPE_KEYS then Some (PrototypeMember k)
      else None)"

text \<open>
  \<open>trait?.name || 'Challenge'\<close>: the name of a trait; for an inherited function its
  \<open>name\<close> property, which is \<open>Object\<close> for \<open>constructor\<close> and the key for the others; the
  prototype object has no \<open>name\<close>.
\<close>

definition traitName_of :: "trait_value option \<Rightarrow> string" where
  "traitName_of tr =
     (case tr of
        None \<Rightarrow> ''Challenge''
      | Some (TraitObject t) \<Rightarrow> if trait_name t = [] then ''Challenge'' else trait_name t
      | Some (PrototypeMember k) \<Rightarrow>
          if k = ''constructor'' then ''Object''
          else if k = ''__proto__'' then ''Challenge'' else k)"

record stats =
  totalScore :: int
  currentStreak :: int
  maxStreak :: int
  totalCorrect :: int
  totalAttempts :: int
  averageResponseTime :: int
  responseTimes :: "int list"

text \<open>The payload of \<open>UPDATE_STATS\<close> is an object with any subset of the keys.\<close>

record stats_patch =
  sp_totalScore :: "int option"
  sp_currentStreak :: "int option"
  sp_maxStreak :: "int option"
  sp_totalCorrect :: "int option"
  sp_totalAttempts :: "int option"
  sp_averageResponseTime :: "int option"
  sp_responseTimes :: "int list option"

type_synonym 'v progress = "string \<rightharpoonup> 'v"

record 'v game_state =
  userId :: "string option"
  sessionId :: string
  currentPhase :: string
  completedChallenges :: "string list"
  game_stats :: stats
  unlockedTraits :: "trait_value list"
  challengeResults :: "string \<rightharpoonup> 'v"
  challengeProgress :: "string \<rightharpoonup> 'v progress"
  startTime :: "int option"
  phaseStartTime :: "int option"
  showingTransition :: bool
  transitionMessage :: string
  isPaused :: bool

text \<open>
  What \<open>JSON.parse\<close> returns for the stored entry: an object in which every key of the
  state may be missing (\<open>None\<close>). \<open>userId\<close>, \<open>startTime\<close> and \<open>phaseStartTime\<close> may
  also be present with the value \<open>null\<close> (\<open>Some None\<close>). The save effect writes the first
  nine keys; the other four are in the entry only if something else put them there. A
  present key holds a value of the type its field has in the state (a stored phase is a
  string); keys that are no field of the state are spread into it as well and are read
  by nothing.
\<close>

record 'v saved_state =
  sv_userId :: "string option option"
  sv_sessionId :: "string option"
  sv_currentPhase :: "string option"
  sv_completedChallenges :: "string list option"
  sv_stats :: "stats option"
  sv_unlockedTraits :: "trait_value list option"
  sv_challengeResults :: "(string \<rightharpoonup> 'v) option"
  sv_challengeProgress :: "(string \<rightharpoonup> 'v progress) option"
  sv_startTime :: "int option option"
  sv_phaseStartTime :: "int option option"
  sv_showingTransition :: "bool option"
  sv_transitionMessage :: "string option"
  sv_isPaused :: "bool option"

datatype 'v action =
    SET_USER_ID "string option"
  | START_GAME int int
  | SET_PHASE string int
  | COMPLETE_CHALLENGE string
  | UPDATE_STATS stats_patch
  | INCREMENT_STREAK
  | BREAK_STREAK
  | UNLOCK_TRAIT trait_value
  | SHOW_TRANSITION string
  | HIDE_TRANSITION
  | SAVE_CHALLENGE_RESULT string 'v
  | ADD_RESPONSE_TIME int
  | PAUSE_GAME
  | RESUME_GAME
  | LOAD_SAVED_STATE "'v saved_state"
  | UPDATE_CHALLENGE_PROGRESS string "'v progress"

text \<open>
  \<open>generateSessionId()\<close> is random; the identifier it returned is a parameter. The four
  results start as \<open>null\<close>, the four progress objects with their defaults.
\<close>

definition initial_challengeResults :: "string \<rightharpoonup> json" where
  "initial_challengeResults =
     [''colorBlindness'' \<mapsto> JNull, ''visualAcuity'' \<mapsto> JNull, ''motorSkills'' \<mapsto> JNull,
      ''knowledgeQuiz'' \<mapsto> JNull]"

definition initial_challengeProgress :: "string \<rightharpoonup> json progress" where
  "initial_challengeProgress =
     [''colorBlindness'' \<mapsto> [''currentPlate'' \<mapsto> JNum 0, ''plates'' \<mapsto> JArr []],
      ''visualAcuity'' \<mapsto>
         [''currentLevel'' \<mapsto> JNum 1, ''distanceConfirmed'' \<mapsto> JBool False,
          ''lastCorrectLevel'' \<mapsto> JNum 1, ''attempts'' \<mapsto> JArr []],
      ''motorSkills'' \<mapsto>
         [''currentRound'' \<mapsto> JNum 1,
          ''totalStats'' \<mapsto>
             JObj [(''hits'', JNum 0), (''misses'', JNum 0), (''bestStreak'', JNum 0)]],
      ''knowledgeQuiz'' \<mapsto> [''currentQuestion'' \<mapsto> JNum 0, ''responses'' \<mapsto> JArr []]]"

definition initialState :: "string \<Rightarrow> json game_state" where
  "initialState sid =
     \<lparr>userId = None, sessionId = sid, currentPhase = ''intro'', completedChallenges = [],
      game_stats = \<lparr>totalScore = 0, currentStreak = 0, maxStreak = 0, totalCorrect = 0,
                    totalAttempts = 0, averageResponseTime = 0, responseTimes = []\<rparr>,
      unlockedTraits = [], challengeResults = initial_challengeResults,
      challengeProgress = initial_challengeProgress,
      startTime = None, phaseStartTime = None, showingTransition = False,
      transitionMessage = [], isPaused = False\<rparr>"

definition or_keep :: "'a option \<Rightarrow> 'a \<Rightarrow> 'a" where
  "or_keep new old = (case new of None \<Rightarrow> old | Some v \<Rightarrow> v)"

definition merge_stats :: "stats \<Rightarrow> stats_patch \<Rightarrow> stats" where
  "merge_stats s p =
     \<lparr>totalScore = or_keep (sp_totalScore p) (totalScore s),
      currentStreak = or_keep (sp_currentStreak p) (currentStreak s),
      maxStreak = or_keep (sp_maxStreak p) (maxStreak s),
      totalCorrect = or_keep (sp_totalCorrect p) (totalCorrect s),
      totalAttempts = or_keep (sp_totalAttempts p) (totalAttempts s),
      averageResponseTime = or_keep (sp_averageResponseTime p) (averageResponseTime s),
      responseTimes = or_keep (sp_responseTimes p) (responseTimes s)\<rparr>"

text \<open>
  \<open>Math.round(a / n)\<close> for an integer \<open>a\<close> and \<open>n > 0\<close>: halves go up. The sum and the
  quotient are exact here; a double is exact for integers up to \<open>2^53\<close>.
\<close>

definition math_round_div :: "int \<Rightarrow> int \<Rightarrow> int" where
  "math_round_div a n = (2 * a + n) div (2 * n)"

fun gameReducer :: "'v game_state \<Rightarrow> 'v action \<Rightarrow> 'v game_state" where
  "gameReducer st (SET_USER_ID u) = st\<lparr>userId := u\<rparr>"
| "gameReducer st (START_GAME t1 t2) =
     st\<lparr>startTime := Some t1, phaseStartTime := Some t2, currentPhase := ''color-blindness''\<rparr>"
| "gameReducer st (SET_PHASE p t) = st\<lparr>currentPhase := p, phaseStartTime := Some t\<rparr>"
| "gameReducer st (COMPLETE_CHALLENGE c) =
     st\<lparr>completedChallenges := completedChallenges st @ [c]\<rparr>"
| "gameReducer st (UPDATE_STATS p) = st\<lparr>game_stats := merge_stats (game_stats st) p\<rparr>"
| "gameReducer st INCREMENT_STREAK =
     (let newStreak = currentStreak (game_stats st) + 1
      in st\<lparr>game_stats := (game_stats st)
              \<lparr>currentStreak := newStreak,
               maxStreak := max (maxStreak (game_stats st)) newStreak,
               totalCorrect := totalCorrect (game_stats st) + 1,
               totalAttempts := totalAttempts (game_stats st) + 1\<rparr>\<rparr>)"
| "gameReducer st BREAK_STREAK =
     st\<lparr>game_stats := (game_stats st)
          \<lparr>currentStreak := 0, totalAttempts := totalAttempts (game_stats st) + 1\<rparr>\<rparr>"
| "gameReducer st (UNLOCK_TRAIT t) = st\<lparr>unlockedTraits := unlockedTraits st @ [t]\<rparr>"
| "gameReducer st (SHOW_TRANSITION m) =
     st\<lparr>showingTransition := True, transitionMessage := m\<rparr>"
| "gameReducer st HIDE_TRANSITION =
     st\<lparr>showingTransition := False, transitionMessage := []\<rparr>"
| "gameReducer st (SAVE_CHALLENGE_RESULT c r) =
     st\<lparr>challengeResults := (challengeResults st)(c \<mapsto> r)\<rparr>"
| "gameReducer st (ADD_RESPONSE_TIME t) =
     (let rts = responseTimes (game_stats st) @ [t]
      in st\<lparr>game_stats := (game_stats st)
              \<lparr>responseTimes := rts,
               averageResponseTime := math_round_div (sum_list rts) (int (length rts))\<rparr>\<rparr>)"
| "gameReducer st PAUSE_GAME = st\<lparr>isPaused := True\<rparr>"
| "gameReducer st RESUME_GAME = st\<lparr>isPaused := False\<rparr>"
| "gameReducer st (LOAD_SAVED_STATE p) =
     st\<lparr>userId := or_keep (sv_userId p) (userId st),
        sessionId := or_keep (sv_sessionId p) (sessionId st),
        currentPhase := or_keep (sv_currentPhase p) (currentPhase st),
        completedChallenges := or_keep (sv_completedChallenges p) (completedChallenges st),
        game_stats := or_keep (sv_stats p) (game_stats st),
        unlockedTraits := or_keep (sv_unlockedTraits p) (unlockedTraits st),
        challengeResults := or_keep (sv_challengeResults p) (challengeResults st),
        challengeProgress := or_keep (sv_challengeProgress p) (challengeProgress st),
        startTime := or_keep (sv_startTime p) (startTime st),
        phaseStartTime := or_keep (sv_phaseStartTime p) (phaseStartTime st),
        showingTransition := or_keep (sv_showingTransition p) (showingTransition st),
        transitionMessage := or_keep (sv_transitionMessage p) (transitionMessage st),
        isPaused := or_keep (sv_isPaused p) (isPaused st)\<rparr>"
| "gameReducer st (UPDATE_CHALLENGE_PROGRESS c pr) =
     st\<lparr>challengeProgress := (challengeProgress st)
          (c \<mapsto> (case challengeProgress st c of None \<Rightarrow> Map.empty | Some old \<Rightarrow> old) ++ pr)\<rparr>"

text \<open>
  \<open>Array.prototype.indexOf\<close>: the position of the first occurrence, \<open>-1\<close> when there is
  none.
\<close>

fun indexOf :: "'a list \<Rightarrow> 'a \<Rightarrow> int" where
  "indexOf [] x = -1"
| "indexOf (y # ys) x =
     (if y = x then 0 else (let i = indexOf ys x in if i < 0 then -1 else i + 1))"

text \<open>
  \<open>completeChallenge(challengeId, results)\<close>: the dispatches of the callback in their
  order, applied to the state with no other dispatch between them. \<open>now\<close> is the clock
  reading of the closing \<open>SET_PHASE\<close>. The index \<open>currentIndex + 1\<close> is read from
  \<open>CHALLENGE_ORDER\<close> only under the guard \<open>currentIndex < length - 1\<close>, and
  \<open>currentIndex \<ge> -1\<close>, so the read is in range.
\<close>

definition completeChallenge :: "int \<Rightarrow> string \<Rightarrow> 'v \<Rightarrow> 'v game_state \<Rightarrow> 'v game_state" where
  "completeChallenge now challengeId results st =
     (let s1 = gameReducer st (SAVE_CHALLENGE_RESULT challengeId results);
          s2 = gameReducer s1 (COMPLETE_CHALLENGE challengeId);
          tr = PROFILE_TRAITS challengeId;
          s3 = (case tr of None \<Rightarrow> s2 | Some t \<Rightarrow> gameReducer s2 (UNLOCK_TRAIT t));
          traitName = traitName_of tr;
          s4 = gameReducer s3 (SHOW_TRANSITION (traitName @ '' Unlocked!''));
          s5 = gameReducer s4 HIDE_TRANSITION;
          currentIndex = indexOf CHALLENGE_ORDER challengeId
      in if currentIndex < int (length CHALLENGE_ORDER) - 1
         then gameReducer s5 (SET_PHASE (CHALLENGE_ORDER ! nat (currentIndex + 1)) now)
         else s5)"

text \<open>
  The two halves of \<open>completeChallenge\<close> around its
  \<open>await new Promise(resolve => setTimeout(resolve, 2000))\<close>: the state while the transition
  is shown, and the dispatches after the wait.
\<close>

definition completeChallenge_shown :: "string \<Rightarrow> 'v \<Rightarrow> 'v game_state \<Rightarrow> 'v game_state" where
  "completeChallenge_shown challengeId results st =
     (let s1 = gameReducer st (SAVE_CHALLENGE_RESULT challengeId results);
          s2 = gameReducer s1 (COMPLETE_CHALLENGE challengeId);
          tr = PROFILE_TRAITS challengeId;
          s3 = (case tr of None \<Rightarrow> s2 | Some t \<Rightarrow> gameReducer s2 (UNLOCK_TRAIT t));
          traitName = traitName_of tr
      in gameReducer s3 (SHOW_TRANSITION (traitName @ '' Unlocked!'')))"

definition completeChallenge_resume :: "int \<Rightarrow> string \<Rightarrow> 'v game_state \<Rightarrow> 'v game_state" where
  "completeChallenge_resume now challengeId st =
     (let s5 = gameReducer st HIDE_TRANSITION;
          currentIndex = indexOf CHALLENGE_ORDER challengeId
      in if currentIndex < int (length CHALLENGE_ORDER) - 1
         then gameReducer s5 (SET_PHASE (CHALLENGE_ORDER ! nat (currentIndex + 1)) now)
         else s5)"

text \<open>
  The stored entry as the load effect sees it: no entry (or an empty string), a string
  on which \<open>JSON.parse\<close> or the property reads throw (the effect catches and logs), or a
  parsed object.
\<close>

datatype 'v stored = NoItem | Unparseable | Parsed "'v saved_state"

text \<open>JavaScript truthiness of \<open>parsedState.startTime\<close>: present, not null, not \<open>0\<close>.\<close>

definition truthy_time :: "int option option \<Rightarrow> bool" where
  "truthy_time t = (case t of Some (Some n) \<Rightarrow> n \<noteq> 0 | _ \<Rightarrow> False)"

definition loadEffect :: "'v stored \<Rightarrow> 'v game_state \<Rightarrow> 'v game_state" where
  "loadEffect item st =
     (case item of
        NoItem \<Rightarrow> st
      | Unparseable \<Rightarrow> st
      | Parsed p \<Rightarrow>
          if truthy_time (sv_startTime p) \<and> sv_currentPhase p \<noteq> Some ''intro''
          then gameReducer st (LOAD_SAVED_STATE p) else st)"

text \<open>
  The save effect writes the entry only when \<open>state.startTime\<close> is truthy; what it
  writes has all nine keys.
\<close>

definition saveEffect :: "'v game_state \<Rightarrow> 'v saved_state option" where
  "saveEffect st =
     (if truthy_time (Some (startTime st)) then
        Some \<lparr>sv_userId = Some (userId st), sv_sessionId = Some (sessionId st),
              sv_currentPhase = Some (currentPhase st),
              sv_completedChallenges = Some (completedChallenges st),
              sv_stats = Some (game_stats st), sv_unlockedTraits = Some (unlockedTraits st),
              sv_challengeResults = Some (challengeResults st),
              sv_challengeProgress = Some (challengeProgress st),
              sv_startTime = Some (startTime st),
              sv_phaseStartTime = None, sv_showingTransition = None,
              sv_transitionMessage = None, sv_isPaused = None\<rparr>
      else None)"

text \<open>
  The computed \<open>progress\<close> of the provider: \<open>current\<close> is the length of
  \<open>completedChallenges\<close>, \<open>total\<close> is the constant \<open>4\<close> ("4 challenges"), and
  \<open>percentage\<close> is \<open>Math.round((length / 4) * 100)\<close>.
\<close>

definition progress_current :: "'v game_state \<Rightarrow> nat" where
  "progress_current st = length (completedChallenges st)"

definition progress_total :: nat where
  "progress_total = 4"

definition progress_percentage :: "'v game_state \<Rightarrow> int" where
  "progress_percentage st = math_round_div (int (length (completedChallenges st)) * 100) 4"

text \<open>Scenario D: the entry stored by a session that was reloaded in the middle of the second stage.\<close>

definition scenario_D :: "json saved_state" where
  "scenario_D =
     \<lparr>sv_userId = Some None, sv_sessionId = Some ''session_1'',
      sv_currentPhase = Some ''visual-acuity'',
      sv_completedChallenges = Some [''color-blindness''],
      sv_stats = None, sv_unlockedTraits = None, sv_challengeResults = None,
      sv_challengeProgress = Some [''visualAcuity'' \<mapsto> [''currentLevel'' \<mapsto> JNum 3]],
      sv_startTime = Some (Some 1700000000000),
      sv_phaseStartTime = None, sv_showingTransition = None, sv_transitionMessage = None,
      sv_isPaused = None\<rparr>"

section \<open>JavaScript numbers\<close>

text \<open>
  A JavaScript number is a finite value or one of \<open>NaN\<close>, \<open>Infinity\<close>, \<open>-Infinity\<close>.
  Finite values are real numbers here: the rounding of double arithmetic is not part of
  the model, the special values and the operations that produce them are. The two zeros
  of a double are the one \<open>Num 0\<close>, read as \<open>+0\<close> when it divides; every zero divisor
  of the code below is a list length or a sum of square roots.
\<close>

datatype jsnum = Num real | NaN | PosInf | NegInf

definition is_finite :: "jsnum \<Rightarrow> bool" where
  "is_finite v = (case v of Num _ \<Rightarrow> True | _ \<Rightarrow> False)"

fun js_neg :: "jsnum \<Rightarrow> jsnum" where
  "js_neg (Num a) = Num (- a)"
| "js_neg NaN = NaN"
| "js_neg PosInf = NegInf"
| "js_neg NegInf = PosInf"

fun js_add :: "jsnum \<Rightarrow> jsnum \<Rightarrow> jsnum" where
  "js_add (Num a) (Num b) = Num (a + b)"
| "js_add NaN _ = NaN"
| "js_add _ NaN = NaN"
| "js_add PosInf NegInf = NaN"
| "js_add NegInf PosInf = NaN"
| "js_add PosInf _ = PosInf"
| "js_add _ PosInf = PosInf"
| "js_add NegInf _ = NegInf"
| "js_add _ NegInf = NegInf"

definition js_sub :: "jsnum \<Rightarrow> jsnum \<Rightarrow> jsnum" where
  "js_sub a b = js_add a (js_neg b)"

fun js_div :: "jsnum \<Rightarrow> jsnum \<Rightarrow> jsnum" where
  "js_div (Num a) (Num b) =
     (if b \<noteq> 0 then Num (a / b)
      else if a = 0 then NaN else if 0 < a then PosInf else NegInf)"
| "js_div NaN _ = NaN"
| "js_div _ NaN = NaN"
| "js_div (Num a) PosInf = Num 0"
| "js_div (Num a) NegInf = Num 0"
| "js_div PosInf (Num b) = (if 0 \<le> b then PosInf else NegInf)"
| "js_div NegInf (Num b) = (if 0 \<le> b then NegInf else PosInf)"
| "js_div PosInf _ = NaN"
| "js_div NegInf _ = NaN"

text \<open>\<open>Math.pow(v, 2)\<close> and \<open>Math.sqrt(v)\<close>.\<close>

fun js_pow2 :: "jsnum \<Rightarrow> jsnum" where
  "js_pow2 (Num a) = Num (a\<^sup>2)"
| "js_pow2 NaN = NaN"
| "js_pow2 PosInf = PosInf"
| "js_pow2 NegInf = PosInf"

fun js_sqrt :: "jsnum \<Rightarrow> jsnum" where
  "js_sqrt (Num a) = (if a < 0 then NaN else Num (sqrt a))"
| "js_sqrt NaN = NaN"
| "js_sqrt PosInf = PosInf"
| "js_sqrt NegInf = NaN"

text \<open>The comparison \<open>a < b\<close>: false as soon as one side is \<open>NaN\<close>.\<close>

fun js_less :: "jsnum \<Rightarrow> jsnum \<Rightarrow> bool" where
  "js_less (Num a) (Num b) = (a < b)"
| "js_less NaN _ = False"
| "js_less _ NaN = False"
| "js_less _ NegInf = False"
| "js_less PosInf _ = False"
| "js_less NegInf _ = True"
| "js_less _ PosInf = True"

text \<open>
  \<open>parseFloat(v.toFixed(k))\<close>: a finite value is rounded to \<open>k\<close> decimals, halves away
  from zero; \<open>NaN\<close> and the infinities print and parse as themselves.
\<close>

fun toFixed :: "nat \<Rightarrow> jsnum \<Rightarrow> jsnum" where
  "toFixed k (Num a) = Num (sgn a * of_int \<lfloor>\<bar>a\<bar> * 10 ^ k + 1 / 2\<rfloor> / 10 ^ k)"
| "toFixed k v = v"

section \<open>Motor skills tracker (utils/motorSkillsTracking)\<close>

text \<open>
  The fields \<open>SAMPLE_INTERVAL\<close>, \<open>MOVE_TRACK_INTERVAL\<close>, \<open>BATCH_SIZE\<close> and
  \<open>BATCH_TIMEOUT\<close> are set once, in the constructor.
\<close>

definition SAMPLE_INTERVAL :: int where "SAMPLE_INTERVAL = 33"
definition MOVE_TRACK_INTERVAL :: int where "MOVE_TRACK_INTERVAL = 33"
definition BATCH_SIZE :: nat where "BATCH_SIZE = 15"
definition BATCH_TIMEOUT :: int where "BATCH_TIMEOUT = 3000"

record touch =
  t_clientX :: real
  t_clientY :: real
  t_force :: "real option"
  t_radiusX :: "real option"
  t_radiusY :: "real option"

text \<open>A DOM event, or the object \<open>{clientX, clientY}\<close> that the cursor sampler builds.\<close>

record pointer_event =
  ev_clientX :: "real option"
  ev_clientY :: "real option"
  ev_touches :: "touch list option"
  ev_pointerType :: "string option"
  ev_pressure :: "real option"

type_synonym coords = "real \<times> real"

record trajectory_point =
  tp_x :: real
  tp_y :: real
  tp_time :: int
  tp_velocity :: "real option"
  tp_acceleration :: "real option"

record velocity_entry =
  ve_velocity :: real
  ve_acceleration :: real
  ve_time :: int

record pointer_sample =
  ps_round :: int
  ps_tms :: int
  ps_x :: jsnum
  ps_y :: jsnum
  ps_isDown :: bool
  ps_pointerType :: string

record trajectory_metrics =
  m_pathLength :: jsnum
  m_straightDistance :: "jsnum option"
  m_straightness :: jsnum
  m_smoothness :: jsnum
  m_pointCount :: nat
  m_averageVelocity :: "jsnum option"

text \<open>The type-specific part of a logged interaction, for the two methods modelled.\<close>

datatype event_data =
    PointerDownData coords "string option" string real "(real option \<times> real option) option"
  | PointerUpData coords "string option" int int trajectory_metrics bool

record interaction =
  i_sessionId :: string
  i_module :: string
  i_round :: int
  i_eventType :: string
  i_timestamp :: int
  i_data :: event_data

text \<open>A request handed to \<open>api.post\<close>: the body of \<open>POST /motor/trace\<close>.\<close>

datatype request = MotorTrace string "string option" "pointer_sample list"

text \<open>
  The tracker object, and with it the part of the browser it acts on: the pending
  timeouts of \<open>setTimeout\<close> (each would call \<open>flushBatch\<close>), the next timer handle, the
  requests handed to the network so far and the lines written by \<open>console.error\<close>.
  A handle that \<open>setTimeout\<close> returned is truthy (in a browser it is an integer greater
  than zero), so \<open>if (this.batchTimer)\<close> is the test for \<open>Some\<close>; \<open>None\<close> is \<open>null\<close>.
\<close>

record tracker =
  trk_sessionId :: string
  trk_userId :: "string option"
  participantId :: string
  interactions :: "interaction list"
  touchStartTimes :: "string \<rightharpoonup> int"
  lastTapTime :: int
  lastPosition :: "coords option"
  velocityHistory :: "velocity_entry list"
  trajectoryPoints :: "trajectory_point list"
  trk_round :: int
  pointerSamples :: "pointer_sample list"
  lastSampleTime :: int
  isPointerDown :: bool
  interactionBuffer :: "interaction list"
  batchTimer :: "nat option"
  lastMoveTrackTime :: int
  timers :: "nat list"
  next_timer :: nat
  requests :: "request list"
  console_errors :: "string list"

definition new_tracker :: "string \<Rightarrow> string option \<Rightarrow> string \<Rightarrow> tracker" where
  "new_tracker sid uid pid =
     \<lparr>trk_sessionId = sid, trk_userId = uid, participantId = pid, interactions = [],
      touchStartTimes = Map.empty, lastTapTime = 0, lastPosition = None,
      velocityHistory = [], trajectoryPoints = [], trk_round = 1, pointerSamples = [],
      lastSampleTime = 0, isPointerDown = False, interactionBuffer = [], batchTimer = None,
      lastMoveTrackTime = 0, timers = [], next_timer = 1, requests = [],
      console_errors = []\<rparr>"

subsection \<open>Timers and the network\<close>

definition clearTimeout :: "nat \<Rightarrow> tracker \<Rightarrow> tracker" where
  "clearTimeout h st = st\<lparr>timers := removeAll h (timers st)\<rparr>"

definition setTimeout :: "tracker \<Rightarrow> nat \<times> tracker" where
  "setTimeout st =
     (next_timer st, st\<lparr>timers := timers st @ [next_timer st], next_timer := next_timer st + 1\<rparr>)"

text \<open>
  \<open>logPointerSamples\<close> of utils/api: the request is made; when it fails (\<open>ok\<close> false)
  the error is logged and thrown again (second component \<open>False\<close>).
\<close>

definition logPointerSamples ::
  "bool \<Rightarrow> string \<Rightarrow> string option \<Rightarrow> pointer_sample list \<Rightarrow> tracker \<Rightarrow> tracker \<times> bool" where
  "logPointerSamples ok sid uid samples st =
     (let st1 = st\<lparr>requests := requests st @ [MotorTrace sid uid samples]\<rparr>
      in if ok then (st1, True)
         else (st1\<lparr>console_errors := console_errors st1 @ [''Error logging pointer samples:'']\<rparr>,
               False))"

text \<open>
  The first half of \<open>sendRoundDataToML\<close>: the pointer samples of the round are sent, and a
  failure is caught and dropped. (The second half sends the attempts the same way.)
\<close>

definition sendRoundDataToML_samples :: "bool \<Rightarrow> int \<Rightarrow> tracker \<Rightarrow> tracker" where
  "sendRoundDataToML_samples ok r st =
     (let roundSamples = filter (\<lambda>s. ps_round s = r) (pointerSamples st)
      in if length roundSamples > 0
         then fst (logPointerSamples ok (trk_sessionId st) (trk_userId st) roundSamples st)
         else st)"

subsection \<open>The delivery buffer\<close>

text \<open>
  \<open>flushBatch\<close> is declared \<open>async\<close> but awaits nothing, so its body runs to the end
  inside the call. The copy \<open>batch\<close> of the buffer is made and not used again.
\<close>

definition flushBatch :: "tracker \<Rightarrow> tracker" where
  "flushBatch st =
     (if length (interactionBuffer st) = 0 then st
      else
        (let batch = interactionBuffer st;
             st1 = st\<lparr>interactionBuffer := []\<rparr>
         in case batchTimer st1 of
              None \<Rightarrow> st1
            | Some h \<Rightarrow> (clearTimeout h st1)\<lparr>batchTimer := None\<rparr>))"

definition addToBuffer :: "interaction \<Rightarrow> tracker \<Rightarrow> tracker" where
  "addToBuffer d st =
     (let st1 = st\<lparr>interactionBuffer := interactionBuffer st @ [d]\<rparr>
      in if length (interactionBuffer st1) \<ge> BATCH_SIZE then flushBatch st1
         else
           (let st2 = (case batchTimer st1 of None \<Rightarrow> st1 | Some h \<Rightarrow> clearTimeout h st1);
                (h', st3) = setTimeout st2
            in st3\<lparr>batchTimer := Some h'\<rparr>))"

text \<open>The timeout with handle \<open>h\<close> expires: its callback calls \<open>flushBatch\<close>.\<close>

definition timer_fires :: "nat \<Rightarrow> tracker \<Rightarrow> tracker" where
  "timer_fires h st =
     (if h \<in> set (timers st) then flushBatch (st\<lparr>timers := removeAll h (timers st)\<rparr>) else st)"

text \<open>\<open>logInteraction\<close>; \<open>ts\<close> is the value of \<open>new Date()\<close>.\<close>

definition logInteraction :: "int \<Rightarrow> string \<Rightarrow> event_data \<Rightarrow> tracker \<Rightarrow> tracker" where
  "logInteraction ts eventType d st =
     (let interaction = \<lparr>i_sessionId = trk_sessionId st, i_module = ''motorSkills'',
                          i_round = trk_round st, i_eventType = eventType, i_timestamp = ts,
                          i_data = d\<rparr>
      in addToBuffer interaction (st\<lparr>interactions := interactions st @ [interaction]\<rparr>))"

subsection \<open>Pointer tracking\<close>

definition getCoordinates :: "pointer_event \<Rightarrow> coords" where
  "getCoordinates ev =
     (case ev_touches ev of
        Some (t # _) \<Rightarrow> (t_clientX t, t_clientY t)
      | _ \<Rightarrow> (case ev_clientX ev of None \<Rightarrow> 0 | Some v \<Rightarrow> v,
              case ev_clientY ev of None \<Rightarrow> 0 | Some v \<Rightarrow> v))"

text \<open>\<open>event.pointerType || (event.touches ? 'touch' : 'mouse')\<close>\<close>

definition pointerType_of :: "pointer_event \<Rightarrow> string" where
  "pointerType_of ev =
     (case ev_pointerType ev of
        Some s \<Rightarrow> if s \<noteq> [] then s
                  else (case ev_touches ev of Some _ \<Rightarrow> ''touch'' | None \<Rightarrow> ''mouse'')
      | None \<Rightarrow> (case ev_touches ev of Some _ \<Rightarrow> ''touch'' | None \<Rightarrow> ''mouse''))"

text \<open>\<open>event.pressure || (event.touches?.[0]?.force) || 0\<close>\<close>

definition pressure_of :: "pointer_event \<Rightarrow> real" where
  "pressure_of ev =
     (let force = (case ev_touches ev of
                     Some (t # _) \<Rightarrow> (case t_force t of Some f \<Rightarrow> f | None \<Rightarrow> 0)
                   | _ \<Rightarrow> 0)
      in case ev_pressure ev of
           Some p \<Rightarrow> if p \<noteq> 0 then p else force
         | None \<Rightarrow> force)"

definition touchArea_of :: "pointer_event \<Rightarrow> (real option \<times> real option) option" where
  "touchArea_of ev =
     (case ev_touches ev of
        Some (t # _) \<Rightarrow> Some (t_radiusX t, t_radiusY t)
      | _ \<Rightarrow> None)"

text \<open>\<open>bubbleId || 'screen'\<close>, the key of \<open>touchStartTimes\<close>.\<close>

definition touch_key :: "string option \<Rightarrow> string" where
  "touch_key bubbleId =
     (case bubbleId of None \<Rightarrow> ''screen'' | Some b \<Rightarrow> if b = [] then ''screen'' else b)"

text \<open>\<open>trackPointerDown\<close>; \<open>now\<close> is \<open>Date.now()\<close>, \<open>ts\<close> the later \<open>new Date()\<close>.\<close>

definition trackPointerDown ::
  "int \<Rightarrow> int \<Rightarrow> pointer_event \<Rightarrow> string option \<Rightarrow> tracker \<Rightarrow> tracker" where
  "trackPointerDown now ts ev bubbleId st =
     (let coords = getCoordinates ev;
          st1 = st\<lparr>touchStartTimes := (touchStartTimes st)(touch_key bubbleId \<mapsto> now),
                   lastPosition := Some coords,
                   trajectoryPoints := [\<lparr>tp_x = fst coords, tp_y = snd coords, tp_time = now,
                                          tp_velocity = None, tp_acceleration = None\<rparr>]\<rparr>
      in logInteraction ts ''pointer_down''
           (PointerDownData coords bubbleId (pointerType_of ev) (pressure_of ev)
              (touchArea_of ev)) st1)"

text \<open>\<open>xs.slice(-n)\<close>: the last \<open>n\<close> elements.\<close>

definition slice_last :: "nat \<Rightarrow> 'a list \<Rightarrow> 'a list" where
  "slice_last n xs = drop (length xs - n) xs"

text \<open>
  \<open>trackPointerMove\<close>. \<open>now\<close> is \<open>Date.now()\<close>; \<open>screenWidth\<close> and \<open>screenHeight\<close> are
  what \<open>window.innerWidth\<close> and \<open>window.innerHeight\<close> hold at the call, as numbers
  (\<open>undefined\<close> is \<open>NaN\<close> in a division). The time of the last trajectory point is
  \<open>trajectoryPoints[length - 1]?.time || now\<close>.
\<close>

definition last_point_time :: "int \<Rightarrow> trajectory_point list \<Rightarrow> int" where
  "last_point_time now pts =
     (if pts = [] then now else if tp_time (last pts) = 0 then now else tp_time (last pts))"

definition store_sample :: "int \<Rightarrow> jsnum \<Rightarrow> jsnum \<Rightarrow> pointer_event \<Rightarrow> coords \<Rightarrow> tracker \<Rightarrow> tracker" where
  "store_sample now screenWidth screenHeight ev coords st =
     (if now - lastSampleTime st \<ge> SAMPLE_INTERVAL then
        (let st1 = st\<lparr>pointerSamples := pointerSamples st @
                         [\<lparr>ps_round = trk_round st, ps_tms = now,
                           ps_x = js_div (Num (fst coords)) screenWidth,
                           ps_y = js_div (Num (snd coords)) screenHeight,
                           ps_isDown = isPointerDown st,
                           ps_pointerType = pointerType_of ev\<rparr>],
                       lastSampleTime := now\<rparr>
         in if length (pointerSamples st1) > 1000
            then st1\<lparr>pointerSamples := slice_last 800 (pointerSamples st1)\<rparr>
            else st1)
      else st)"

definition track_velocity :: "int \<Rightarrow> coords \<Rightarrow> tracker \<Rightarrow> tracker" where
  "track_velocity now coords st =
     (case lastPosition st of
        None \<Rightarrow> st
      | Some lp \<Rightarrow>
          (let dt = now - last_point_time now (trajectoryPoints st)
           in if dt > 0 then
                (let dx = fst coords - fst lp;
                     dy = snd coords - snd lp;
                     distance = sqrt (dx * dx + dy * dy);
                     velocity = distance / (real_of_int dt / 1000);
                     acceleration =
                       (if length (velocityHistory st) > 0
                        then (velocity - ve_velocity (last (velocityHistory st)))
                               / (real_of_int dt / 1000)
                        else 0);
                     vh = velocityHistory st @
                            [\<lparr>ve_velocity = velocity, ve_acceleration = acceleration,
                              ve_time = now\<rparr>];
                     vh' = (if length vh > 10 then tl vh else vh);
                     tps = trajectoryPoints st @
                            [\<lparr>tp_x = fst coords, tp_y = snd coords, tp_time = now,
                              tp_velocity = Some velocity, tp_acceleration = Some acceleration\<rparr>];
                     tps' = (if length tps > 100 then slice_last 80 tps else tps)
                 in st\<lparr>velocityHistory := vh', trajectoryPoints := tps'\<rparr>)
              else st))"

definition trackPointerMove ::
  "int \<Rightarrow> jsnum \<Rightarrow> jsnum \<Rightarrow> pointer_event \<Rightarrow> tracker \<Rightarrow> tracker" where
  "trackPointerMove now screenWidth screenHeight ev st =
     (if now - lastMoveTrackTime st < MOVE_TRACK_INTERVAL then st
      else
        (let st1 = st\<lparr>lastMoveTrackTime := now\<rparr>;
             coords = getCoordinates ev;
             st2 = store_sample now screenWidth screenHeight ev coords st1;
             st3 = track_velocity now coords st2
         in st3\<lparr>lastPosition := Some coords\<rparr>))"

definition trackPointerDownState :: "tracker \<Rightarrow> tracker" where
  "trackPointerDownState st = st\<lparr>isPointerDown := True\<rparr>"

definition trackPointerUpState :: "tracker \<Rightarrow> tracker" where
  "trackPointerUpState st = st\<lparr>isPointerDown := False\<rparr>"

subsection \<open>Trajectory analysis\<close>

definition point_dist :: "trajectory_point \<Rightarrow> trajectory_point \<Rightarrow> real" where
  "point_dist p q =
     (let dx = tp_x q - tp_x p; dy = tp_y q - tp_y p in sqrt (dx * dx + dy * dy))"

text \<open>The loop \<open>for (i = 1; i < length; i++) pathLength += ...\<close>, with its accumulator.\<close>

fun pathLength_loop :: "real \<Rightarrow> trajectory_point list \<Rightarrow> real" where
  "pathLength_loop acc (p # q # ps) = pathLength_loop (acc + point_dist p q) (q # ps)"
| "pathLength_loop acc ps = acc"

text \<open>
  \<open>filter(p => p.velocity).map(p => p.velocity)\<close>: a point stays when its velocity is
  present and not \<open>0\<close>.
\<close>

definition velocities_of :: "trajectory_point list \<Rightarrow> real list" where
  "velocities_of pts =
     map (\<lambda>p. case tp_velocity p of Some v \<Rightarrow> v | None \<Rightarrow> 0)
       (filter (\<lambda>p. case tp_velocity p of Some v \<Rightarrow> v \<noteq> 0 | None \<Rightarrow> False) pts)"

definition avgVelocity_of :: "real list \<Rightarrow> jsnum" where
  "avgVelocity_of velocities =
     js_div (Num (foldl (+) 0 velocities)) (Num (real (length velocities)))"

definition velocityVariance_of :: "real list \<Rightarrow> jsnum" where
  "velocityVariance_of velocities =
     js_div
       (foldl (\<lambda>sum v. js_add sum (js_pow2 (js_sub (Num v) (avgVelocity_of velocities))))
          (Num 0) velocities)
       (Num (real (length velocities)))"

definition smoothness_of :: "real list \<Rightarrow> jsnum" where
  "smoothness_of velocities =
     js_div (Num 1)
       (js_add (Num 1)
          (js_div (js_sqrt (velocityVariance_of velocities)) (avgVelocity_of velocities)))"

definition straightDistance_of :: "trajectory_point list \<Rightarrow> real" where
  "straightDistance_of pts =
     sqrt ((tp_x (last pts) - tp_x (hd pts))\<^sup>2 + (tp_y (last pts) - tp_y (hd pts))\<^sup>2)"

text \<open>
  \<open>analyzeTrajectory\<close> reads \<open>this.trajectoryPoints\<close>. \<open>hd\<close> and \<open>last\<close> are applied
  to a list of at least two points only.
\<close>

definition analyzeTrajectory :: "trajectory_point list \<Rightarrow> trajectory_metrics" where
  "analyzeTrajectory pts =
     (if length pts < 2 then
        \<lparr>m_pathLength = Num 0, m_straightDistance = None, m_straightness = Num 1,
         m_smoothness = Num 1, m_pointCount = length pts, m_averageVelocity = None\<rparr>
      else
        (let pathLength = pathLength_loop 0 pts;
             straightDistance = straightDistance_of pts;
             straightness = js_div (Num straightDistance) (Num pathLength);
             velocities = velocities_of pts;
             avgVelocity = avgVelocity_of velocities;
             smoothness = smoothness_of velocities
         in \<lparr>m_pathLength = toFixed 2 (Num pathLength),
             m_straightDistance = Some (toFixed 2 (Num straightDistance)),
             m_straightness = toFixed 3 straightness,
             m_smoothness = toFixed 3 smoothness,
             m_pointCount = length pts,
             m_averageVelocity = Some (toFixed 2 avgVelocity)\<rparr>))"

text \<open>
  \<open>trackPointerUp\<close>: \<open>startTime ? now - startTime : 0\<close> and
  \<open>this.lastTapTime ? now - this.lastTapTime : 0\<close> take \<open>0\<close> for a missing or zero time.
\<close>

definition trackPointerUp ::
  "int \<Rightarrow> int \<Rightarrow> pointer_event \<Rightarrow> string option \<Rightarrow> bool \<Rightarrow> tracker \<Rightarrow> tracker" where
  "trackPointerUp now ts ev bubbleId bubbleHit st =
     (let coords = getCoordinates ev;
          touchDuration = (case touchStartTimes st (touch_key bubbleId) of
                             Some t \<Rightarrow> if t \<noteq> 0 then now - t else 0
                           | None \<Rightarrow> 0);
          interTapInterval = (if lastTapTime st \<noteq> 0 then now - lastTapTime st else 0);
          trajectoryMetrics = analyzeTrajectory (trajectoryPoints st);
          st1 = st\<lparr>lastTapTime := now,
                   touchStartTimes := (touchStartTimes st)(touch_key bubbleId := None),
                   velocityHistory := [], trajectoryPoints := [], lastPosition := None\<rparr>
      in logInteraction ts (if bubbleHit then ''bubble_hit'' else ''stage_clicked_miss'')
           (PointerUpData coords bubbleId touchDuration interTapInterval trajectoryMetrics
              bubbleHit) st1)"

subsection \<open>Calls from the game component\<close>

text \<open>
  What the game component does with the tracker between two renderings: the methods
  above, the assignment \<open>tracker.round = currentRound\<close> of \<open>startRound\<close>, and the expiry
  of a batch timer.
\<close>

datatype tracker_call =
    Move int jsnum jsnum pointer_event
  | Down int int pointer_event "string option"
  | Up int int pointer_event "string option" bool
  | DownState
  | UpState
  | SetRound int
  | TimerFires nat
  | Flush

fun call :: "tracker_call \<Rightarrow> tracker \<Rightarrow> tracker" where
  "call (Move now w h ev) st = trackPointerMove now w h ev st"
| "call (Down now ts ev b) st = trackPointerDown now ts ev b st"
| "call (Up now ts ev b hit) st = trackPointerUp now ts ev b hit st"
| "call DownState st = trackPointerDownState st"
| "call UpState st = trackPointerUpState st"
| "call (SetRound r) st = st\<lparr>trk_round := r\<rparr>"
| "call (TimerFires h) st = timer_fires h st"
| "call Flush st = flushBatch st"

definition run :: "tracker_call list \<Rightarrow> tracker \<Rightarrow> tracker" where
  "run cs st = foldl (\<lambda>s c. call c s) st cs"

text \<open>Capture times in which each is at least \<open>SAMPLE_INTERVAL\<close> after the one before.\<close>

fun spaced :: "int list \<Rightarrow> bool" where
  "spaced (a # b # ts) = (b - a \<ge> SAMPLE_INTERVAL \<and> spaced (b # ts))"
| "spaced ts = True"

section \<open>Overshoot detection (modules/Motor/MotorSkillsGame)\<close>

definition BUBBLE_RADIUS :: real where "BUBBLE_RADIUS = 25"

record bubble =
  b_id :: string
  b_x :: real
  b_y :: real
  b_column :: nat
  b_speed :: real
  b_radius :: real
  b_spawnTime :: int

text \<open>
  The distance \<open>Math.sqrt(dx * dx + dy * dy)\<close> from the pointer to a bubble. It is the
  exact square root here; the code compares the rounded doubles.
\<close>

definition bubble_dist :: "coords \<Rightarrow> bubble \<Rightarrow> real" where
  "bubble_dist pointerPos b =
     (let dx = fst pointerPos - b_x b; dy = snd pointerPos - b_y b in sqrt (dx * dx + dy * dy))"

text \<open>The loop over \<open>bubblesRef.current\<close>; \<open>minDist\<close> starts at \<open>Infinity\<close>.\<close>

fun minDist_loop :: "jsnum \<Rightarrow> coords \<Rightarrow> bubble list \<Rightarrow> jsnum" where
  "minDist_loop minDist pointerPos [] = minDist"
| "minDist_loop minDist pointerPos (b # bs) =
     minDist_loop
       (if js_less (Num (bubble_dist pointerPos b)) minDist
        then Num (bubble_dist pointerPos b) else minDist)
       pointerPos bs"

text \<open>The test on the last three entries of the history.\<close>

definition overshoot_detected :: "jsnum list \<Rightarrow> bool" where
  "overshoot_detected history =
     (length history \<ge> 3 \<and>
      (let prev2 = history ! (length history - 3);
           prev1 = history ! (length history - 2);
           curr = history ! (length history - 1);
           wasApproaching = js_less prev1 prev2;
           nowReceding = js_less prev1 curr;
           nearTarget = js_less curr (Num (BUBBLE_RADIUS * 4))
       in wasApproaching \<and> nowReceding \<and> nearTarget))"

text \<open>
  The overshoot part of \<open>sampleCursorPosition\<close>, as a function of
  \<open>distanceHistoryRef.current\<close>. \<open>pushed_history\<close> is the history after the push and the
  \<open>shift\<close> that keeps it at 100 entries; the body of the branch
  \<open>if (wasApproaching && nowReceding && nearTarget)\<close> is the one assignment that empties
  the history. \<open>sampleCursorPosition_history\<close> is the history the call leaves.
\<close>

definition pushed_history :: "jsnum list \<Rightarrow> coords \<Rightarrow> bubble list \<Rightarrow> jsnum list" where
  "pushed_history history pointerPos bubbles =
     (let minDist = minDist_loop PosInf pointerPos bubbles;
          h1 = history @ [minDist]
      in if length h1 > 100 then tl h1 else h1)"

definition sampleCursorPosition_history :: "jsnum list \<Rightarrow> coords \<Rightarrow> bubble list \<Rightarrow> jsnum list" where
  "sampleCursorPosition_history history pointerPos bubbles =
     (if length bubbles > 0 then
        (if overshoot_detected (pushed_history history pointerPos bubbles) then []
         else pushed_history history pointerPos bubbles)
      else history)"

text \<open>
  One run of \<open>sampleCursorPosition\<close> on the tracker and the distance history (the stage
  and the tracker exist while a round is played): nothing when the round is not played or
  the stage has no pointer position; otherwise the position goes to \<open>trackPointerMove\<close>
  as the event \<open>{clientX, clientY}\<close> and then through the overshoot part. The request for
  the next animation frame is not part of the state.
\<close>

definition sampleCursorPosition ::
  "bool \<Rightarrow> int \<Rightarrow> jsnum \<Rightarrow> jsnum \<Rightarrow> coords option \<Rightarrow> bubble list
     \<Rightarrow> tracker \<times> jsnum list \<Rightarrow> tracker \<times> jsnum list" where
  "sampleCursorPosition isPlaying now screenWidth screenHeight pointerPos bubbles s =
     (if \<not> isPlaying then s
      else case pointerPos of
             None \<Rightarrow> s
           | Some pos \<Rightarrow>
               (trackPointerMove now screenWidth screenHeight
                  \<lparr>ev_clientX = Some (fst pos), ev_clientY = Some (snd pos), ev_touches = None,
                   ev_pointerType = None, ev_pressure = None\<rparr> (fst s),
                sampleCursorPosition_history (snd s) pos bubbles))"

text \<open>
  The distance to the nearest active target, in the words of the specification: the least
  Euclidean distance from the pointer to a bubble. It is what the loop of the source is
  compared with.
\<close>

definition nearest_distance :: "coords \<Rightarrow> bubble list \<Rightarrow> real" where
  "nearest_distance pointerPos bubbles =
     Min ((\<lambda>b. sqrt ((fst pointerPos - b_x b)\<^sup>2 + (snd pointerPos - b_y b)\<^sup>2)) ` set bubbles)"

section \<open>Auxiliary definitions for the properties\<close>

text \<open>A sequence of \<open>addToBuffer\<close> calls, and an interaction to call it with.\<close>

definition append_all :: "interaction list \<Rightarrow> tracker \<Rightarrow> tracker" where
  "append_all ds st = foldl (\<lambda>s d. addToBuffer d s) st ds"

definition one_interaction :: interaction where
  "one_interaction = \<lparr>i_sessionId = ''s1'', i_module = ''motorSkills'', i_round = 1,
                  i_eventType = ''pointer_down'', i_timestamp = 1000,
                  i_data = PointerDownData (10, 10) None ''mouse'' 0 None\<rparr>"

text \<open>
  The invariant of the sample buffer: the capture times are spaced, and the newest sample
  was captured at \<open>lastSampleTime\<close>.
\<close>

definition samples_inv :: "tracker \<Rightarrow> bool" where
  "samples_inv st =
     (spaced (map ps_tms (pointerSamples st)) \<and>
      (pointerSamples st = [] \<or> ps_tms (last (pointerSamples st)) = lastSampleTime st))"

text \<open>A mouse event at a position, and a bubble at a position.\<close>

definition click_at :: "real \<Rightarrow> real \<Rightarrow> pointer_event" where
  "click_at px py = \<lparr>ev_clientX = Some px, ev_clientY = Some py, ev_touches = None,
                      ev_pointerType = None, ev_pressure = None\<rparr>"

definition bubble_at :: "real \<Rightarrow> real \<Rightarrow> bubble" where
  "bubble_at px py = \<lparr>b_id = ''bubble_1'', b_x = px, b_y = py, b_column = 0, b_speed = 3 / 2,
                       b_radius = BUBBLE_RADIUS, b_spawnTime = 0\<rparr>"

text \<open>
  A press and, 40 ms later, a move event at the same position: the two calls the game
  component makes for a pointer that is pressed and held still.
\<close>

definition held_still :: tracker where
  "held_still =
     run [Down 1000 1000 (click_at 10 10) None, Move 1040 (Num 800) (Num 600) (click_at 10 10)]
       (new_tracker ''s1'' None ''p1'')"

definition still_points :: "trajectory_point list" where
  "still_points =
     [\<lparr>tp_x = 10, tp_y = 10, tp_time = 1000, tp_velocity = None, tp_acceleration = None\<rparr>,
      \<lparr>tp_x = 10, tp_y = 10, tp_time = 1040, tp_velocity = Some 0, tp_acceleration = Some 0\<rparr>]"

section \<open>Properties of the challenge state machine\<close>

lemma completedChallenges_completeChallenge:
  "completedChallenges (completeChallenge now s r st) = completedChallenges st @ [s]"
  by (simp add: completeChallenge_def Let_def split: option.splits)

text \<open>
  Every stage completion (the \<open>COMPLETE_CHALLENGE\<close> action alone, or the whole of
  \<open>completeChallenge\<close>) appends its stage identifier as one new last entry of
  \<open>completedChallenges\<close>, whatever the list holds already. The first completion of a stage
  leaves one entry for it; there is no test that would stop a second one.
\<close>

lemma completeChallenge_appends_entry:
  "completedChallenges (completeChallenge now s r st) = completedChallenges st @ [s] \<and>
   completedChallenges (gameReducer st (COMPLETE_CHALLENGE s)) = completedChallenges st @ [s] \<and>
   count_list (completedChallenges (completeChallenge now s r st)) s
     = count_list (completedChallenges st) s + 1 \<and>
   (s \<notin> set (completedChallenges st) \<longrightarrow>
      count_list (completedChallenges (completeChallenge now s r st)) s = 1) \<and>
   (s \<notin> set (completedChallenges st) \<and> distinct (completedChallenges st) \<longrightarrow>
      distinct (completedChallenges (completeChallenge now s r st)))"
  by (simp add: completedChallenges_completeChallenge count_list_0_iff)

lemma completeChallenge_shown_resume:
  "completeChallenge now c r st = completeChallenge_resume now c (completeChallenge_shown c r st)"
  by (simp add: completeChallenge_def completeChallenge_shown_def completeChallenge_resume_def
      Let_def)

text \<open>
  Claim C2, evaluated on the code. \<open>completeChallenge\<close> is called twice for the first stage,
  from the state of a started game (a second submission while the first is in its
  transition). \<open>completedChallenges\<close> then holds the stage twice, and the provider's
  \<open>progress\<close>, which counts the entries against the \<open>4\<close> challenges, reports two completed
  challenges and 50 percent while the phase is the second stage.
\<close>

theorem completeChallenge_twice_duplicates:
  "completedChallenges
     (completeChallenge 3 ''color-blindness'' JNull
        (completeChallenge 2 ''color-blindness'' JNull
           (gameReducer (initialState ''s'') (START_GAME 1 1))))
     = [''color-blindness'', ''color-blindness''] \<and>
   \<not> distinct (completedChallenges
     (completeChallenge 3 ''color-blindness'' JNull
        (completeChallenge 2 ''color-blindness'' JNull
           (gameReducer (initialState ''s'') (START_GAME 1 1))))) \<and>
   count_list (completedChallenges
     (completeChallenge 3 ''color-blindness'' JNull
        (completeChallenge 2 ''color-blindness'' JNull
           (gameReducer (initialState ''s'') (START_GAME 1 1))))) ''color-blindness'' = 2 \<and>
   progress_current
     (completeChallenge 3 ''color-blindness'' JNull
        (completeChallenge 2 ''color-blindness'' JNull
           (gameReducer (initialState ''s'') (START_GAME 1 1)))) = 2 \<and>
   progress_percentage
     (completeChallenge 3 ''color-blindness'' JNull
        (completeChallenge 2 ''color-blindness'' JNull
           (gameReducer (initialState ''s'') (START_GAME 1 1)))) = 50 \<and>
   progress_total = 4"
  by (simp add: completedChallenges_completeChallenge initialState_def progress_current_def
      progress_percentage_def progress_total_def math_round_div_def)

lemma saveEffect_fields:
  "saveEffect st = Some p \<Longrightarrow>
   sv_currentPhase p = Some (currentPhase st) \<and>
   sv_completedChallenges p = Some (completedChallenges st) \<and>
   sv_startTime p = Some (startTime st)"
  by (auto simp: saveEffect_def split: if_splits)

text \<open>
  The same through a reload: the state saved while the transition of the first stage is
  shown has the stage completed and the phase still on it; the reloaded game resumes the
  stage, and completing it appends the second entry.
\<close>

lemma reload_in_transition_duplicates:
  "saveEffect (completeChallenge_shown ''color-blindness'' JNull
     (gameReducer (initialState ''s'') (START_GAME 1 1))) = Some p \<Longrightarrow>
   currentPhase (loadEffect (Parsed p) (initialState ''t'')) = ''color-blindness'' \<and>
   completedChallenges (loadEffect (Parsed p) (initialState ''t'')) = [''color-blindness''] \<and>
   completedChallenges
     (completeChallenge 9 ''color-blindness'' JNull (loadEffect (Parsed p) (initialState ''t'')))
     = [''color-blindness'', ''color-blindness'']"
proof -
  let ?mid = "completeChallenge_shown ''color-blindness'' JNull
     (gameReducer (initialState ''s'') (START_GAME 1 1))"
  assume a: "saveEffect ?mid = Some p"
  have ph: "currentPhase ?mid = ''color-blindness''"
    by (simp add: completeChallenge_shown_def Let_def split: option.splits)
  have cc: "completedChallenges ?mid = [''color-blindness'']"
    by (simp add: completeChallenge_shown_def initialState_def Let_def split: option.splits)
  have st: "startTime ?mid = Some 1"
    by (simp add: completeChallenge_shown_def Let_def split: option.splits)
  note f = saveEffect_fields [OF a]
  from f have p1: "sv_currentPhase p = Some ''color-blindness''" by (simp only: ph)
  from f have p2: "sv_completedChallenges p = Some [''color-blindness'']" by (simp only: cc)
  from f have p3: "sv_startTime p = Some (Some 1)" by (simp only: st)
  have l1: "currentPhase (loadEffect (Parsed p) (initialState ''t'')) = ''color-blindness''"
    by (simp add: loadEffect_def truthy_time_def p1 p3 or_keep_def)
  have l2: "completedChallenges (loadEffect (Parsed p) (initialState ''t'')) = [''color-blindness'']"
    by (simp add: loadEffect_def truthy_time_def p1 p2 p3 or_keep_def)
  from l1 l2 show ?thesis by (simp add: completedChallenges_completeChallenge)
qed


lemma currentPhase_completeChallenge:
  "currentPhase (completeChallenge now s r st) =
     (if indexOf CHALLENGE_ORDER s < int (length CHALLENGE_ORDER) - 1
      then CHALLENGE_ORDER ! nat (indexOf CHALLENGE_ORDER s + 1) else currentPhase st)"
  by (simp add: completeChallenge_def Let_def split: option.splits)





text \<open>
  An identifier that is not in the order has index \<open>-1\<close>, and the phase read at index
  \<open>0\<close> is \<open>intro\<close>. The keys of \<open>challengeProgress\<close> are such identifiers. For an
  identifier that names a member of \<open>Object.prototype\<close> the lookup in \<open>PROFILE_TRAITS\<close>
  finds that member, and it is stored as a trait.
\<close>

lemma completeChallenge_unknown_id:
  "indexOf CHALLENGE_ORDER s = -1 \<Longrightarrow> currentPhase (completeChallenge now s r st) = ''intro''"
  by (simp add: currentPhase_completeChallenge) (simp add: CHALLENGE_ORDER_def)

lemma completeChallenge_inherited_key:
  "unlockedTraits (completeChallenge now ''constructor'' r st)
     = unlockedTraits st @ [PrototypeMember ''constructor''] \<and>
   transitionMessage (completeChallenge_shown ''constructor'' r st) = ''Object Unlocked!''"
  by (simp add: completeChallenge_def completeChallenge_shown_def PROFILE_TRAITS_def
      OBJECT_PROTOTYPE_KEYS_def traitName_of_def Let_def)

lemma completeChallenge_colorBlindness_key:
  "currentPhase (completeChallenge 9 ''colorBlindness'' JNull
     (gameReducer (initialState ''s'') (START_GAME 1 1))) = ''intro''"
  by (rule completeChallenge_unknown_id) (simp add: CHALLENGE_ORDER_def)

text \<open>
  Claim C9. When the stored entry has a truthy start time and a phase other than
  \<open>intro\<close>, the load effect dispatches \<open>LOAD_SAVED_STATE\<close> and the state takes every
  stored key as it was stored: the phase, the start time, the whole of
  \<open>challengeProgress\<close> (so each stage's progress), and the other stored keys. A field
  whose key is not stored keeps the value it had.
\<close>

theorem loadEffect_restores_saved:
  assumes "truthy_time (sv_startTime p)" and "sv_currentPhase p = Some ph" and "ph \<noteq> ''intro''"
  shows "currentPhase (loadEffect (Parsed p) st) = ph \<and>
         startTime (loadEffect (Parsed p) st) = the (sv_startTime p) \<and>
         (\<forall>cp. sv_challengeProgress p = Some cp \<longrightarrow>
            challengeProgress (loadEffect (Parsed p) st) = cp) \<and>
         (\<forall>cs. sv_completedChallenges p = Some cs \<longrightarrow>
            completedChallenges (loadEffect (Parsed p) st) = cs) \<and>
         (\<forall>rs. sv_challengeResults p = Some rs \<longrightarrow>
            challengeResults (loadEffect (Parsed p) st) = rs) \<and>
         (\<forall>x. sv_stats p = Some x \<longrightarrow> game_stats (loadEffect (Parsed p) st) = x) \<and>
         (\<forall>ts. sv_unlockedTraits p = Some ts \<longrightarrow>
            unlockedTraits (loadEffect (Parsed p) st) = ts) \<and>
         (\<forall>u. sv_userId p = Some u \<longrightarrow> userId (loadEffect (Parsed p) st) = u) \<and>
         (\<forall>i. sv_sessionId p = Some i \<longrightarrow> sessionId (loadEffect (Parsed p) st) = i) \<and>
         (\<forall>t. sv_phaseStartTime p = Some t \<longrightarrow>
            phaseStartTime (loadEffect (Parsed p) st) = t) \<and>
         (\<forall>b. sv_showingTransition p = Some b \<longrightarrow>
            showingTransition (loadEffect (Parsed p) st) = b) \<and>
         (\<forall>m. sv_transitionMessage p = Some m \<longrightarrow>
            transitionMessage (loadEffect (Parsed p) st) = m) \<and>
         (\<forall>b. sv_isPaused p = Some b \<longrightarrow> isPaused (loadEffect (Parsed p) st) = b) \<and>
         (sv_phaseStartTime p = None \<longrightarrow>
            phaseStartTime (loadEffect (Parsed p) st) = phaseStartTime st) \<and>
         (sv_isPaused p = None \<longrightarrow> isPaused (loadEffect (Parsed p) st) = isPaused st)"
  using assms by (auto simp: loadEffect_def or_keep_def truthy_time_def split: option.splits)

text \<open>
  Scenario D: a reload in the middle of the second stage restores the phase and the
  stored level \<open>3\<close>.
\<close>

theorem loadEffect_restores_saved_witness:
  "truthy_time (sv_startTime scenario_D) \<and>
   sv_currentPhase scenario_D = Some ''visual-acuity'' \<and> ''visual-acuity'' \<noteq> ''intro'' \<and>
   currentPhase (loadEffect (Parsed scenario_D) (initialState ''session_2'')) = ''visual-acuity'' \<and>
   challengeProgress (loadEffect (Parsed scenario_D) (initialState ''session_2''))
     = [''visualAcuity'' \<mapsto> [''currentLevel'' \<mapsto> JNum 3]]"
proof -
  have h1: "truthy_time (sv_startTime scenario_D)"
    by (simp add: scenario_D_def truthy_time_def)
  have h2: "sv_currentPhase scenario_D = Some ''visual-acuity''"
    by (simp add: scenario_D_def)
  have h3: "''visual-acuity'' \<noteq> ''intro''" by simp
  have h4: "sv_challengeProgress scenario_D = Some [''visualAcuity'' \<mapsto> [''currentLevel'' \<mapsto> JNum 3]]"
    by (simp add: scenario_D_def)
  from loadEffect_restores_saved [OF h1 h2 h3, of "initialState ''session_2''"] h1 h2 h3 h4
  show ?thesis by simp
qed

text \<open>
  What the save effect wrote for a state past \<open>intro\<close> is read back whole: the nine stored
  fields of the state are those of the state that was saved.
\<close>

lemma loadEffect_saveEffect:
  assumes "saveEffect st = Some p" and "currentPhase st \<noteq> ''intro''"
  shows "loadEffect (Parsed p) st0 =
           st0\<lparr>userId := userId st, sessionId := sessionId st, currentPhase := currentPhase st,
               completedChallenges := completedChallenges st, game_stats := game_stats st,
               unlockedTraits := unlockedTraits st, challengeResults := challengeResults st,
               challengeProgress := challengeProgress st, startTime := startTime st\<rparr>"
proof -
  from assms(1) have t: "truthy_time (Some (startTime st))"
    by (simp add: saveEffect_def split: if_splits)
  with assms(1) have p: "p = \<lparr>sv_userId = Some (userId st), sv_sessionId = Some (sessionId st),
              sv_currentPhase = Some (currentPhase st),
              sv_completedChallenges = Some (completedChallenges st),
              sv_stats = Some (game_stats st), sv_unlockedTraits = Some (unlockedTraits st),
              sv_challengeResults = Some (challengeResults st),
              sv_challengeProgress = Some (challengeProgress st),
              sv_startTime = Some (startTime st),
              sv_phaseStartTime = None, sv_showingTransition = None,
              sv_transitionMessage = None, sv_isPaused = None\<rparr>"
    by (simp add: saveEffect_def)
  from t assms(2) show ?thesis
    unfolding p by (simp add: loadEffect_def or_keep_def)
qed

section \<open>Properties of the delivery buffer and the sampler\<close>

lemma interactionBuffer_flushBatch [simp]: "interactionBuffer (flushBatch st) = []"
  by (simp add: flushBatch_def clearTimeout_def Let_def split: option.splits)

lemma requests_flushBatch [simp]: "requests (flushBatch st) = requests st"
  by (simp add: flushBatch_def clearTimeout_def Let_def split: option.splits)

lemma console_flushBatch [simp]: "console_errors (flushBatch st) = console_errors st"
  by (simp add: flushBatch_def clearTimeout_def Let_def split: option.splits)

lemma batchTimer_flushBatch: "interactionBuffer st \<noteq> [] \<Longrightarrow> batchTimer (flushBatch st) = None"
  by (simp add: flushBatch_def clearTimeout_def Let_def split: option.splits)

lemma timers_flushBatch:
  "interactionBuffer st \<noteq> [] \<Longrightarrow> batchTimer st = Some h \<Longrightarrow> h \<notin> set (timers (flushBatch st))"
  by (simp add: flushBatch_def clearTimeout_def Let_def split: option.splits)

lemma requests_sendRoundDataToML_samples:
  "filter (\<lambda>s. ps_round s = r) (pointerSamples st) \<noteq> [] \<Longrightarrow>
   requests (sendRoundDataToML_samples ok r st) =
     requests st @ [MotorTrace (trk_sessionId st) (trk_userId st)
                      (filter (\<lambda>s. ps_round s = r) (pointerSamples st))]"
  by (simp add: sendRoundDataToML_samples_def logPointerSamples_def Let_def)

text \<open>
  Claim C1, evaluated on the code. With a non-empty buffer \<open>flushBatch\<close> empties the
  buffer and cancels the pending batch timer, and that is all it does: no request is
  handed to the network and nothing is logged, so no delivery of the swapped-out events
  is attempted.
\<close>

theorem flushBatch_sends_nothing:
  assumes "interactionBuffer st \<noteq> []"
  shows "interactionBuffer (flushBatch st) = [] \<and>
         batchTimer (flushBatch st) = None \<and>
         (\<forall>h. batchTimer st = Some h \<longrightarrow> h \<notin> set (timers (flushBatch st))) \<and>
         requests (flushBatch st) = requests st \<and>
         console_errors (flushBatch st) = console_errors st"
  using assms by (simp add: batchTimer_flushBatch timers_flushBatch)

lemma one_interaction_buffered:
  "addToBuffer one_interaction (new_tracker ''s1'' None ''p1'') =
     (new_tracker ''s1'' None ''p1'')
       \<lparr>interactionBuffer := [one_interaction], batchTimer := Some 1, timers := [1], next_timer := 2\<rparr>"
  by (simp add: addToBuffer_def new_tracker_def setTimeout_def BATCH_SIZE_def Let_def)

text \<open>
  One logged interaction, then a flush: the buffer and the timer are cleared and the list
  of requests is still empty.
\<close>

theorem flushBatch_sends_nothing_witness:
  "interactionBuffer (addToBuffer one_interaction (new_tracker ''s1'' None ''p1'')) \<noteq> [] \<and>
   batchTimer (addToBuffer one_interaction (new_tracker ''s1'' None ''p1'')) = Some 1 \<and>
   timers (addToBuffer one_interaction (new_tracker ''s1'' None ''p1'')) = [1] \<and>
   interactionBuffer (flushBatch (addToBuffer one_interaction (new_tracker ''s1'' None ''p1''))) = [] \<and>
   batchTimer (flushBatch (addToBuffer one_interaction (new_tracker ''s1'' None ''p1''))) = None \<and>
   1 \<notin> set (timers (flushBatch (addToBuffer one_interaction (new_tracker ''s1'' None ''p1'')))) \<and>
   requests (flushBatch (addToBuffer one_interaction (new_tracker ''s1'' None ''p1''))) = []"
proof -
  have h: "interactionBuffer (addToBuffer one_interaction (new_tracker ''s1'' None ''p1'')) \<noteq> []"
    by (simp add: one_interaction_buffered)
  have r: "requests (addToBuffer one_interaction (new_tracker ''s1'' None ''p1'')) = []"
    by (simp add: one_interaction_buffered) (simp add: new_tracker_def)
  from flushBatch_sends_nothing [OF h] h r show ?thesis
    by (simp add: one_interaction_buffered)
qed

lemma addToBuffer_below:
  "length (interactionBuffer st) + 1 < BATCH_SIZE \<Longrightarrow>
   interactionBuffer (addToBuffer d st) = interactionBuffer st @ [d]"
  by (simp add: addToBuffer_def setTimeout_def clearTimeout_def Let_def split: option.splits)

lemma addToBuffer_full:
  "length (interactionBuffer st) + 1 \<ge> BATCH_SIZE \<Longrightarrow>
   addToBuffer d st = flushBatch (st\<lparr>interactionBuffer := interactionBuffer st @ [d]\<rparr>)"
  by (simp add: addToBuffer_def Let_def)

lemma addToBuffer_length: "length (interactionBuffer (addToBuffer d st)) < BATCH_SIZE"
proof (cases "length (interactionBuffer st) + 1 < BATCH_SIZE")
  case True
  then show ?thesis by (simp add: addToBuffer_below)
next
  case False
  then have "addToBuffer d st = flushBatch (st\<lparr>interactionBuffer := interactionBuffer st @ [d]\<rparr>)"
    by (simp add: addToBuffer_full)
  then show ?thesis by (simp add: BATCH_SIZE_def)
qed

lemma append_all_below:
  "length (interactionBuffer st) + length ds < BATCH_SIZE \<Longrightarrow>
   interactionBuffer (append_all ds st) = interactionBuffer st @ ds"
proof (induction ds arbitrary: st)
  case Nil
  then show ?case by (simp add: append_all_def)
next
  case (Cons d ds)
  then have b: "interactionBuffer (addToBuffer d st) = interactionBuffer st @ [d]"
    by (simp add: addToBuffer_below)
  with Cons.prems have "length (interactionBuffer (addToBuffer d st)) + length ds < BATCH_SIZE"
    by simp
  from Cons.IH [OF this] b show ?case by (simp add: append_all_def)
qed

lemma append_all_length:
  "length (interactionBuffer st) < BATCH_SIZE \<Longrightarrow>
   length (interactionBuffer (append_all ds st)) = (length (interactionBuffer st) + length ds) mod BATCH_SIZE"
proof (induction ds arbitrary: st)
  case Nil
  then show ?case by (simp add: append_all_def)
next
  case (Cons d ds)
  have l: "length (interactionBuffer (addToBuffer d st)) < BATCH_SIZE" by (rule addToBuffer_length)
  have "length (interactionBuffer (addToBuffer d st)) mod BATCH_SIZE
          = (length (interactionBuffer st) + 1) mod BATCH_SIZE"
  proof (cases "length (interactionBuffer st) + 1 < BATCH_SIZE")
    case True
    then show ?thesis by (simp add: addToBuffer_below)
  next
    case False
    with Cons.prems have e: "length (interactionBuffer st) + 1 = BATCH_SIZE" by simp
    then have "addToBuffer d st = flushBatch (st\<lparr>interactionBuffer := interactionBuffer st @ [d]\<rparr>)"
      by (simp add: addToBuffer_full)
    with e show ?thesis by simp
  qed
  then have "(length (interactionBuffer (addToBuffer d st)) + length ds) mod BATCH_SIZE
          = (length (interactionBuffer st) + 1 + length ds) mod BATCH_SIZE"
    by (metis mod_add_left_eq)
  with Cons.IH [OF l] show ?case by (simp add: append_all_def)
qed

text \<open>
  Claim C4. After any \<open>addToBuffer\<close> the buffer is no longer than \<open>BATCH_SIZE\<close>. While
  the calls keep the buffer below \<open>BATCH_SIZE\<close> nothing is flushed: the buffer holds all
  the appended interactions. The call that brings the buffer to \<open>BATCH_SIZE\<close> is the
  append followed by one \<open>flushBatch\<close>, and leaves the buffer empty and no timer set.
  From a new tracker the length of the buffer after \<open>n\<close> calls is \<open>n mod BATCH_SIZE\<close>.
\<close>

theorem addToBuffer_batch_invariant:
  "length (interactionBuffer (addToBuffer d st)) \<le> BATCH_SIZE \<and>
   (length (interactionBuffer st) + length ds < BATCH_SIZE \<longrightarrow>
      interactionBuffer (append_all ds st) = interactionBuffer st @ ds) \<and>
   (length (interactionBuffer st) + 1 = BATCH_SIZE \<longrightarrow>
      addToBuffer d st = flushBatch (st\<lparr>interactionBuffer := interactionBuffer st @ [d]\<rparr>) \<and>
      interactionBuffer (addToBuffer d st) = [] \<and>
      batchTimer (addToBuffer d st) = None) \<and>
   length (interactionBuffer (append_all ds (new_tracker sid uid pid))) = length ds mod BATCH_SIZE"
proof -
  have 1: "length (interactionBuffer (addToBuffer d st)) \<le> BATCH_SIZE"
    using addToBuffer_length [of d st] by simp
  have 2: "length (interactionBuffer st) + length ds < BATCH_SIZE \<longrightarrow>
      interactionBuffer (append_all ds st) = interactionBuffer st @ ds"
    by (simp add: append_all_below)
  have 3: "length (interactionBuffer st) + 1 = BATCH_SIZE \<longrightarrow>
      addToBuffer d st = flushBatch (st\<lparr>interactionBuffer := interactionBuffer st @ [d]\<rparr>) \<and>
      interactionBuffer (addToBuffer d st) = [] \<and>
      batchTimer (addToBuffer d st) = None"
    by (simp add: addToBuffer_full batchTimer_flushBatch)
  have "length (interactionBuffer (new_tracker sid uid pid)) < BATCH_SIZE"
    by (simp add: new_tracker_def BATCH_SIZE_def)
  from append_all_length [OF this]
  have 4: "length (interactionBuffer (append_all ds (new_tracker sid uid pid))) = length ds mod BATCH_SIZE"
    by (simp add: new_tracker_def)
  from 1 2 3 4 show ?thesis by blast
qed


text \<open>
  Scenario B: fourteen calls leave fourteen interactions in the buffer, the fifteenth
  flushes once and leaves it empty.
\<close>

theorem addToBuffer_batch_invariant_witness:
  "length (interactionBuffer (new_tracker ''s1'' None ''p1'')) + length (replicate 14 one_interaction)
     < BATCH_SIZE \<and>
   interactionBuffer (append_all (replicate 14 one_interaction) (new_tracker ''s1'' None ''p1''))
     = replicate 14 one_interaction \<and>
   length (interactionBuffer (append_all (replicate 14 one_interaction) (new_tracker ''s1'' None ''p1'')))
     + 1 = BATCH_SIZE \<and>
   interactionBuffer
     (addToBuffer one_interaction
        (append_all (replicate 14 one_interaction) (new_tracker ''s1'' None ''p1''))) = [] \<and>
   addToBuffer one_interaction (append_all (replicate 14 one_interaction) (new_tracker ''s1'' None ''p1''))
     = flushBatch
         ((append_all (replicate 14 one_interaction) (new_tracker ''s1'' None ''p1''))
            \<lparr>interactionBuffer := replicate 14 one_interaction @ [one_interaction]\<rparr>)"
proof -
  let ?new = "new_tracker ''s1'' None ''p1''"
  let ?ds = "replicate 14 one_interaction"
  have h1: "length (interactionBuffer ?new) + length ?ds < BATCH_SIZE"
    by (simp add: new_tracker_def BATCH_SIZE_def)
  from addToBuffer_batch_invariant [of one_interaction ?new ?ds] h1
  have b: "interactionBuffer (append_all ?ds ?new) = ?ds"
    by (simp add: new_tracker_def)
  then have h2: "length (interactionBuffer (append_all ?ds ?new)) + 1 = BATCH_SIZE"
    by (simp add: BATCH_SIZE_def)
  from addToBuffer_batch_invariant [of one_interaction "append_all ?ds ?new" "[]"] h2 b
  have "interactionBuffer (addToBuffer one_interaction (append_all ?ds ?new)) = [] \<and>
        addToBuffer one_interaction (append_all ?ds ?new)
          = flushBatch ((append_all ?ds ?new)\<lparr>interactionBuffer := ?ds @ [one_interaction]\<rparr>)"
    by simp
  with h1 b h2 show ?thesis by simp
qed

lemma spaced_tl: "spaced (a # ts) \<Longrightarrow> spaced ts"
  by (cases ts) simp_all

lemma spaced_drop: "spaced ts \<Longrightarrow> spaced (drop n ts)"
proof (induction n arbitrary: ts)
  case 0
  then show ?case by simp
next
  case (Suc n)
  show ?case
  proof (cases ts)
    case Nil
    then show ?thesis by simp
  next
    case (Cons a rest)
    with Suc.prems have "spaced rest" by (simp add: spaced_tl)
    with Suc.IH Cons show ?thesis by simp
  qed
qed

lemma spaced_snoc:
  "spaced (ts @ [b]) = (spaced ts \<and> (ts = [] \<or> b - last ts \<ge> SAMPLE_INTERVAL))"
  by (induction ts rule: spaced.induct) auto

lemma samples_flushBatch [simp]:
  "pointerSamples (flushBatch st) = pointerSamples st"
  "lastSampleTime (flushBatch st) = lastSampleTime st"
  by (simp_all add: flushBatch_def clearTimeout_def Let_def split: option.splits)

lemma samples_addToBuffer [simp]:
  "pointerSamples (addToBuffer d st) = pointerSamples st"
  "lastSampleTime (addToBuffer d st) = lastSampleTime st"
  by (simp_all add: addToBuffer_def setTimeout_def clearTimeout_def Let_def split: option.splits)

lemma samples_logInteraction [simp]:
  "pointerSamples (logInteraction ts ty d st) = pointerSamples st"
  "lastSampleTime (logInteraction ts ty d st) = lastSampleTime st"
  by (simp_all add: logInteraction_def Let_def)

lemma samples_trackPointerDown [simp]:
  "pointerSamples (trackPointerDown now ts ev b st) = pointerSamples st"
  "lastSampleTime (trackPointerDown now ts ev b st) = lastSampleTime st"
  by (simp_all add: trackPointerDown_def Let_def)

lemma samples_trackPointerUp [simp]:
  "pointerSamples (trackPointerUp now ts ev b hit st) = pointerSamples st"
  "lastSampleTime (trackPointerUp now ts ev b hit st) = lastSampleTime st"
  by (simp_all add: trackPointerUp_def Let_def)

lemma samples_timer_fires [simp]:
  "pointerSamples (timer_fires h st) = pointerSamples st"
  "lastSampleTime (timer_fires h st) = lastSampleTime st"
  by (simp_all add: timer_fires_def)

lemma samples_track_velocity [simp]:
  "pointerSamples (track_velocity now c st) = pointerSamples st"
  "lastSampleTime (track_velocity now c st) = lastSampleTime st"
  by (simp_all add: track_velocity_def Let_def split: option.splits)

lemma samples_inv_store_sample:
  assumes "samples_inv st"
  shows "samples_inv (store_sample now w h ev c st)"
proof (cases "now - lastSampleTime st \<ge> SAMPLE_INTERVAL")
  case False
  with assms show ?thesis by (simp add: store_sample_def)
next
  case True
  let ?s = "\<lparr>ps_round = trk_round st, ps_tms = now, ps_x = js_div (Num (fst c)) w,
             ps_y = js_div (Num (snd c)) h, ps_isDown = isPointerDown st,
             ps_pointerType = pointerType_of ev\<rparr>"
  let ?xs = "pointerSamples st @ [?s]"
  have sp: "spaced (map ps_tms ?xs)"
  proof (cases "pointerSamples st = []")
    case True
    then show ?thesis by simp
  next
    case ne: False
    then have "last (map ps_tms (pointerSamples st)) = ps_tms (last (pointerSamples st))"
      by (simp add: last_map)
    with assms True ne show ?thesis by (simp add: samples_inv_def spaced_snoc)
  qed
  show ?thesis
  proof (cases "length ?xs > 1000")
    case False
    with True sp show ?thesis by (simp add: store_sample_def samples_inv_def Let_def)
  next
    case big: True
    have "spaced (map ps_tms (slice_last 800 ?xs))"
      unfolding slice_last_def drop_map [symmetric] by (rule spaced_drop [OF sp])
    moreover from big have "slice_last 800 ?xs \<noteq> []" by (simp add: slice_last_def)
    moreover from big have "last (slice_last 800 ?xs) = ?s" by (simp add: slice_last_def)
    ultimately show ?thesis using True big
      by (simp add: store_sample_def samples_inv_def Let_def)
  qed
qed

lemma samples_inv_lastMove [simp]:
  "samples_inv (st\<lparr>lastMoveTrackTime := t\<rparr>) = samples_inv st"
  "samples_inv (st\<lparr>lastPosition := p\<rparr>) = samples_inv st"
  "samples_inv (st\<lparr>isPointerDown := d\<rparr>) = samples_inv st"
  "samples_inv (st\<lparr>trk_round := r\<rparr>) = samples_inv st"
  by (simp_all add: samples_inv_def)

lemma samples_inv_trackPointerMove:
  "samples_inv st \<Longrightarrow> samples_inv (trackPointerMove now w h ev st)"
proof -
  assume a: "samples_inv st"
  have "samples_inv (track_velocity now c s) = samples_inv s" for c s
    by (simp add: samples_inv_def)
  with a show ?thesis
    by (simp add: trackPointerMove_def Let_def samples_inv_store_sample)
qed

lemma samples_inv_call: "samples_inv st \<Longrightarrow> samples_inv (call c st)"
proof (cases c)
  case (Move now w h ev)
  assume "samples_inv st"
  with Move show ?thesis by (simp add: samples_inv_trackPointerMove)
next
  case (Down now ts ev b)
  assume "samples_inv st"
  with Down show ?thesis by (simp add: samples_inv_def)
next
  case (Up now ts ev b hit)
  assume "samples_inv st"
  with Up show ?thesis by (simp add: samples_inv_def)
next
  case DownState
  assume "samples_inv st"
  with DownState show ?thesis by (simp add: trackPointerDownState_def)
next
  case UpState
  assume "samples_inv st"
  with UpState show ?thesis by (simp add: trackPointerUpState_def)
next
  case (SetRound r)
  assume "samples_inv st"
  with SetRound show ?thesis by simp
next
  case (TimerFires h)
  assume "samples_inv st"
  with TimerFires show ?thesis by (simp add: samples_inv_def)
next
  case Flush
  assume "samples_inv st"
  with Flush show ?thesis by (simp add: samples_inv_def)
qed

lemma samples_inv_run: "samples_inv st \<Longrightarrow> samples_inv (run cs st)"
  unfolding run_def by (induction cs arbitrary: st) (simp_all add: samples_inv_call)

text \<open>
  Claim C7. Whatever calls the tracker receives after its construction, and at whatever
  clock readings, any two consecutive samples of \<open>pointerSamples\<close> were captured at
  least \<open>SAMPLE_INTERVAL\<close> milliseconds apart.
\<close>

theorem pointer_samples_spaced:
  "spaced (map ps_tms (pointerSamples (run cs (new_tracker sid uid pid))))"
proof -
  have "samples_inv (new_tracker sid uid pid)"
    by (simp add: samples_inv_def new_tracker_def)
  then have "samples_inv (run cs (new_tracker sid uid pid))" by (rule samples_inv_run)
  then show ?thesis by (simp add: samples_inv_def)
qed

lemma getCoordinates_click_at [simp]: "getCoordinates (click_at px py) = (px, py)"
  by (simp add: getCoordinates_def click_at_def)

lemma pointerType_click_at [simp]: "pointerType_of (click_at px py) = ''mouse''"
  by (simp add: pointerType_of_def click_at_def)

lemma pointerSamples_trackPointerMove:
  "pointerSamples (trackPointerMove now w h ev st) =
     (if now - lastMoveTrackTime st < MOVE_TRACK_INTERVAL then pointerSamples st
      else pointerSamples (store_sample now w h ev (getCoordinates ev) (st\<lparr>lastMoveTrackTime := now\<rparr>)))"
  by (simp add: trackPointerMove_def Let_def)

lemma store_sample_last:
  assumes "now - lastSampleTime st \<ge> SAMPLE_INTERVAL"
  shows "pointerSamples (store_sample now w h ev c st) \<noteq> [] \<and>
         last (pointerSamples (store_sample now w h ev c st)) =
           \<lparr>ps_round = trk_round st, ps_tms = now, ps_x = js_div (Num (fst c)) w,
            ps_y = js_div (Num (snd c)) h, ps_isDown = isPointerDown st,
            ps_pointerType = pointerType_of ev\<rparr>"
  using assms by (simp add: store_sample_def Let_def slice_last_def)

lemma store_sample_skip:
  "\<not> now - lastSampleTime st \<ge> SAMPLE_INTERVAL \<Longrightarrow>
   pointerSamples (store_sample now w h ev c st) = pointerSamples st"
  by (simp add: store_sample_def)

lemma lastMoveTrackTime_trackPointerMove:
  "now - lastMoveTrackTime st \<ge> MOVE_TRACK_INTERVAL \<Longrightarrow>
   lastMoveTrackTime (trackPointerMove now w h ev st) = now"
  by (simp add: trackPointerMove_def store_sample_def track_velocity_def Let_def
      split: option.splits)

lemma store_sample_exact:
  assumes "now - lastSampleTime st \<ge> SAMPLE_INTERVAL"
  shows "pointerSamples (store_sample now w h ev c st) =
           (if length (pointerSamples st) + 1 > 1000
            then drop (length (pointerSamples st) + 1 - 800)
                   (pointerSamples st @
                      [\<lparr>ps_round = trk_round st, ps_tms = now, ps_x = js_div (Num (fst c)) w,
                        ps_y = js_div (Num (snd c)) h, ps_isDown = isPointerDown st,
                        ps_pointerType = pointerType_of ev\<rparr>])
            else pointerSamples st @
                   [\<lparr>ps_round = trk_round st, ps_tms = now, ps_x = js_div (Num (fst c)) w,
                     ps_y = js_div (Num (snd c)) h, ps_isDown = isPointerDown st,
                     ps_pointerType = pointerType_of ev\<rparr>])"
  using assms by (simp add: store_sample_def Let_def slice_last_def)

text \<open>
  Claim C10, as the code has it. Whether \<open>trackPointerMove\<close> appends a sample depends on
  the two throttles alone, whatever the viewport dimensions are: a throttled call leaves
  \<open>pointerSamples\<close> as it is, and a call with both intervals elapsed leaves the old
  samples followed by one new sample (cut to the last 800 when that makes more than 1000).
  The coordinates of the new sample are the pointer coordinates divided by
  \<open>window.innerWidth\<close> and \<open>window.innerHeight\<close>. These are finite numbers when both
  dimensions are finite and not zero.
\<close>

theorem trackPointerMove_sample:
  "(now - lastMoveTrackTime st < MOVE_TRACK_INTERVAL \<or> now - lastSampleTime st < SAMPLE_INTERVAL
      \<longrightarrow> pointerSamples (trackPointerMove now w h ev st) = pointerSamples st) \<and>
   (now - lastMoveTrackTime st \<ge> MOVE_TRACK_INTERVAL \<and> now - lastSampleTime st \<ge> SAMPLE_INTERVAL
      \<longrightarrow> pointerSamples (trackPointerMove now w h ev st) =
            (if length (pointerSamples st) + 1 > 1000
             then drop (length (pointerSamples st) + 1 - 800)
                    (pointerSamples st @
                       [\<lparr>ps_round = trk_round st, ps_tms = now,
                         ps_x = js_div (Num (fst (getCoordinates ev))) w,
                         ps_y = js_div (Num (snd (getCoordinates ev))) h,
                         ps_isDown = isPointerDown st, ps_pointerType = pointerType_of ev\<rparr>])
             else pointerSamples st @
                    [\<lparr>ps_round = trk_round st, ps_tms = now,
                      ps_x = js_div (Num (fst (getCoordinates ev))) w,
                      ps_y = js_div (Num (snd (getCoordinates ev))) h,
                      ps_isDown = isPointerDown st, ps_pointerType = pointerType_of ev\<rparr>]) \<and>
          pointerSamples (trackPointerMove now w h ev st) \<noteq> [] \<and>
          last (pointerSamples (trackPointerMove now w h ev st)) =
            \<lparr>ps_round = trk_round st, ps_tms = now,
             ps_x = js_div (Num (fst (getCoordinates ev))) w,
             ps_y = js_div (Num (snd (getCoordinates ev))) h,
             ps_isDown = isPointerDown st, ps_pointerType = pointerType_of ev\<rparr>) \<and>
   (now - lastMoveTrackTime st \<ge> MOVE_TRACK_INTERVAL \<and> now - lastSampleTime st \<ge> SAMPLE_INTERVAL \<and>
    w = Num a \<and> h = Num b \<and> a \<noteq> 0 \<and> b \<noteq> 0
      \<longrightarrow> ps_x (last (pointerSamples (trackPointerMove now w h ev st)))
            = Num (fst (getCoordinates ev) / a) \<and>
          ps_y (last (pointerSamples (trackPointerMove now w h ev st)))
            = Num (snd (getCoordinates ev) / b) \<and>
          is_finite (ps_x (last (pointerSamples (trackPointerMove now w h ev st)))) \<and>
          is_finite (ps_y (last (pointerSamples (trackPointerMove now w h ev st)))))"
proof -
  let ?smp = "\<lparr>ps_round = trk_round st, ps_tms = now,
             ps_x = js_div (Num (fst (getCoordinates ev))) w,
             ps_y = js_div (Num (snd (getCoordinates ev))) h,
             ps_isDown = isPointerDown st, ps_pointerType = pointerType_of ev\<rparr>"
  let ?elapsed = "now - lastMoveTrackTime st \<ge> MOVE_TRACK_INTERVAL \<and>
                  now - lastSampleTime st \<ge> SAMPLE_INTERVAL"
  have 1: "now - lastMoveTrackTime st < MOVE_TRACK_INTERVAL \<or> now - lastSampleTime st < SAMPLE_INTERVAL
      \<longrightarrow> pointerSamples (trackPointerMove now w h ev st) = pointerSamples st"
    by (simp add: pointerSamples_trackPointerMove store_sample_skip)
  have ex: "pointerSamples (trackPointerMove now w h ev st) =
            (if length (pointerSamples st) + 1 > 1000
             then drop (length (pointerSamples st) + 1 - 800) (pointerSamples st @ [?smp])
             else pointerSamples st @ [?smp])"
    and la: "pointerSamples (trackPointerMove now w h ev st) \<noteq> [] \<and>
             last (pointerSamples (trackPointerMove now w h ev st)) = ?smp"
    if a: ?elapsed
  proof -
    from a have e: "now - lastSampleTime (st\<lparr>lastMoveTrackTime := now\<rparr>) \<ge> SAMPLE_INTERVAL"
      by simp
    from store_sample_exact [OF e, of w h ev "getCoordinates ev"] a
    show "pointerSamples (trackPointerMove now w h ev st) =
            (if length (pointerSamples st) + 1 > 1000
             then drop (length (pointerSamples st) + 1 - 800) (pointerSamples st @ [?smp])
             else pointerSamples st @ [?smp])"
      by (simp add: pointerSamples_trackPointerMove)
    from store_sample_last [OF e, of w h ev "getCoordinates ev"] a
    show "pointerSamples (trackPointerMove now w h ev st) \<noteq> [] \<and>
          last (pointerSamples (trackPointerMove now w h ev st)) = ?smp"
      by (simp add: pointerSamples_trackPointerMove)
  qed
  have 2: "?elapsed \<longrightarrow>
          pointerSamples (trackPointerMove now w h ev st) =
            (if length (pointerSamples st) + 1 > 1000
             then drop (length (pointerSamples st) + 1 - 800) (pointerSamples st @ [?smp])
             else pointerSamples st @ [?smp]) \<and>
          pointerSamples (trackPointerMove now w h ev st) \<noteq> [] \<and>
          last (pointerSamples (trackPointerMove now w h ev st)) = ?smp"
    using ex la by blast
  have 3: "now - lastMoveTrackTime st \<ge> MOVE_TRACK_INTERVAL \<and> now - lastSampleTime st \<ge> SAMPLE_INTERVAL \<and>
    w = Num a \<and> h = Num b \<and> a \<noteq> 0 \<and> b \<noteq> 0
      \<longrightarrow> ps_x (last (pointerSamples (trackPointerMove now w h ev st)))
            = Num (fst (getCoordinates ev) / a) \<and>
          ps_y (last (pointerSamples (trackPointerMove now w h ev st)))
            = Num (snd (getCoordinates ev) / b) \<and>
          is_finite (ps_x (last (pointerSamples (trackPointerMove now w h ev st)))) \<and>
          is_finite (ps_y (last (pointerSamples (trackPointerMove now w h ev st))))"
  proof
    assume b: "now - lastMoveTrackTime st \<ge> MOVE_TRACK_INTERVAL \<and> now - lastSampleTime st \<ge> SAMPLE_INTERVAL \<and>
      w = Num a \<and> h = Num b \<and> a \<noteq> 0 \<and> b \<noteq> 0"
    then have ?elapsed by simp
    from la [OF this] b have "last (pointerSamples (trackPointerMove now w h ev st)) =
            \<lparr>ps_round = trk_round st, ps_tms = now,
             ps_x = Num (fst (getCoordinates ev) / a),
             ps_y = Num (snd (getCoordinates ev) / b),
             ps_isDown = isPointerDown st, ps_pointerType = pointerType_of ev\<rparr>"
      by simp
    then show "ps_x (last (pointerSamples (trackPointerMove now w h ev st)))
            = Num (fst (getCoordinates ev) / a) \<and>
          ps_y (last (pointerSamples (trackPointerMove now w h ev st)))
            = Num (snd (getCoordinates ev) / b) \<and>
          is_finite (ps_x (last (pointerSamples (trackPointerMove now w h ev st)))) \<and>
          is_finite (ps_y (last (pointerSamples (trackPointerMove now w h ev st))))"
      by (simp add: is_finite_def)
  qed
  from 1 2 3 show ?thesis by (intro conjI)
qed

text \<open>
  With a viewport of width and height \<open>0\<close> the first move event at \<open>(5, 0)\<close> is
  recorded all the same, with the coordinates \<open>Infinity\<close> and \<open>NaN\<close>.
\<close>

theorem trackPointerMove_no_viewport:
  "pointerSamples (trackPointerMove 1000 (Num 0) (Num 0) (click_at 5 0) (new_tracker ''s1'' None ''p1''))
     = [\<lparr>ps_round = 1, ps_tms = 1000, ps_x = PosInf, ps_y = NaN, ps_isDown = False,
         ps_pointerType = ''mouse''\<rparr>]"
  by (simp add: pointerSamples_trackPointerMove store_sample_def new_tracker_def
      MOVE_TRACK_INTERVAL_def SAMPLE_INTERVAL_def Let_def)

text \<open>
  In a viewport of 800 by 600 a move at \<open>(200, 150)\<close> is recorded as \<open>(1/4, 1/4)\<close>; the next
  event, 10 ms later, is throttled; a move at \<open>(400, 300)\<close> 40 ms after the first is
  recorded after it, and the buffer holds the two samples in this order.
\<close>

theorem trackPointerMove_sample_witness:
  "(1000::int) - lastMoveTrackTime (new_tracker ''s1'' None ''p1'') \<ge> MOVE_TRACK_INTERVAL \<and>
   1000 - lastSampleTime (new_tracker ''s1'' None ''p1'') \<ge> SAMPLE_INTERVAL \<and>
   (800::real) \<noteq> 0 \<and> (600::real) \<noteq> 0 \<and>
   pointerSamples (trackPointerMove 1000 (Num 800) (Num 600) (click_at 200 150)
           (new_tracker ''s1'' None ''p1''))
     = [\<lparr>ps_round = 1, ps_tms = 1000, ps_x = Num (1 / 4), ps_y = Num (1 / 4), ps_isDown = False,
         ps_pointerType = ''mouse''\<rparr>] \<and>
   pointerSamples (trackPointerMove 1010 (Num 800) (Num 600) (click_at 200 150)
     (trackPointerMove 1000 (Num 800) (Num 600) (click_at 200 150) (new_tracker ''s1'' None ''p1'')))
     = pointerSamples (trackPointerMove 1000 (Num 800) (Num 600) (click_at 200 150)
         (new_tracker ''s1'' None ''p1'')) \<and>
   pointerSamples (trackPointerMove 1040 (Num 800) (Num 600) (click_at 400 300)
     (trackPointerMove 1000 (Num 800) (Num 600) (click_at 200 150) (new_tracker ''s1'' None ''p1'')))
     = [\<lparr>ps_round = 1, ps_tms = 1000, ps_x = Num (1 / 4), ps_y = Num (1 / 4), ps_isDown = False,
         ps_pointerType = ''mouse''\<rparr>,
        \<lparr>ps_round = 1, ps_tms = 1040, ps_x = Num (1 / 2), ps_y = Num (1 / 2), ps_isDown = False,
         ps_pointerType = ''mouse''\<rparr>]"
proof -
  let ?new = "new_tracker ''s1'' None ''p1''"
  let ?ev = "click_at 200 150"
  let ?st1 = "trackPointerMove 1000 (Num 800) (Num 600) ?ev ?new"
  let ?s1 = "\<lparr>ps_round = 1, ps_tms = 1000, ps_x = Num (1 / 4), ps_y = Num (1 / 4),
              ps_isDown = False, ps_pointerType = ''mouse''\<rparr>"
  have h1: "(1000::int) - lastMoveTrackTime ?new \<ge> MOVE_TRACK_INTERVAL"
    by (simp add: new_tracker_def MOVE_TRACK_INTERVAL_def)
  have h2: "(1000::int) - lastSampleTime ?new \<ge> SAMPLE_INTERVAL"
    by (simp add: new_tracker_def SAMPLE_INTERVAL_def)
  have f: "trk_round ?new = 1" "isPointerDown ?new = False" "pointerSamples ?new = []"
    by (simp_all add: new_tracker_def)
  from trackPointerMove_sample [of 1000 ?new "Num 800" "Num 600" ?ev 800 600] h1 h2 f
  have a: "pointerSamples ?st1 = [?s1]"
    by simp
  have m1: "lastMoveTrackTime ?st1 = 1000"
    using h1 by (rule lastMoveTrackTime_trackPointerMove)
  have t1: "lastSampleTime ?st1 = 1000"
    using h1 h2 by (simp add: trackPointerMove_def store_sample_def Let_def)
  have r1: "trk_round ?st1 = 1" "isPointerDown ?st1 = False"
    by (simp_all add: trackPointerMove_def store_sample_def track_velocity_def new_tracker_def
        Let_def split: option.splits)
  from m1 have "(1010::int) - lastMoveTrackTime ?st1 < MOVE_TRACK_INTERVAL"
    by (simp add: MOVE_TRACK_INTERVAL_def)
  with trackPointerMove_sample [of 1010 ?st1 "Num 800" "Num 600" ?ev 800 600]
  have b: "pointerSamples (trackPointerMove 1010 (Num 800) (Num 600) ?ev ?st1) = pointerSamples ?st1"
    by (elim conjE) simp
  from m1 t1 have e2: "(1040::int) - lastMoveTrackTime ?st1 \<ge> MOVE_TRACK_INTERVAL"
    "(1040::int) - lastSampleTime ?st1 \<ge> SAMPLE_INTERVAL"
    by (simp_all add: MOVE_TRACK_INTERVAL_def SAMPLE_INTERVAL_def)
  from trackPointerMove_sample [of 1040 ?st1 "Num 800" "Num 600" "click_at 400 300" 800 600]
    e2 a r1
  have c: "pointerSamples (trackPointerMove 1040 (Num 800) (Num 600) (click_at 400 300) ?st1)
     = [?s1, \<lparr>ps_round = 1, ps_tms = 1040, ps_x = Num (1 / 2), ps_y = Num (1 / 2),
              ps_isDown = False, ps_pointerType = ''mouse''\<rparr>]"
    by simp
  from h1 h2 a b c show ?thesis by simp
qed

section \<open>Properties of the trajectory analysis\<close>

lemma trajectoryPoints_addToBuffer [simp]:
  "trajectoryPoints (addToBuffer d st) = trajectoryPoints st"
  by (simp add: addToBuffer_def flushBatch_def setTimeout_def clearTimeout_def Let_def
      split: option.splits)

lemma lastPosition_addToBuffer [simp]:
  "lastPosition (addToBuffer d st) = lastPosition st"
  by (simp add: addToBuffer_def flushBatch_def setTimeout_def clearTimeout_def Let_def
      split: option.splits)

lemma velocityHistory_addToBuffer [simp]:
  "velocityHistory (addToBuffer d st) = velocityHistory st"
  by (simp add: addToBuffer_def flushBatch_def setTimeout_def clearTimeout_def Let_def
      split: option.splits)

lemma lastMoveTrackTime_addToBuffer [simp]:
  "lastMoveTrackTime (addToBuffer d st) = lastMoveTrackTime st"
  by (simp add: addToBuffer_def flushBatch_def setTimeout_def clearTimeout_def Let_def
      split: option.splits)

lemma trajectoryPoints_store_sample [simp]:
  "trajectoryPoints (store_sample now w h ev c st) = trajectoryPoints st"
  "lastPosition (store_sample now w h ev c st) = lastPosition st"
  "velocityHistory (store_sample now w h ev c st) = velocityHistory st"
  by (simp_all add: store_sample_def Let_def)

lemma held_still_points: "trajectoryPoints held_still = still_points"
  by (simp add: held_still_def run_def trackPointerDown_def logInteraction_def
      trackPointerMove_def track_velocity_def last_point_time_def new_tracker_def
      MOVE_TRACK_INTERVAL_def still_points_def Let_def)

text \<open>
  Claim C5, evaluated on the code. A press and a move event at the same position leave a
  trajectory of two points and path length \<open>0\<close>; \<open>analyzeTrajectory\<close> divides \<open>0\<close> by
  \<open>0\<close> and returns the straightness \<open>NaN\<close>, not \<open>1\<close>.
\<close>

theorem analyzeTrajectory_still_straightness:
  "trajectoryPoints held_still = still_points \<and>
   length still_points = 2 \<and>
   pathLength_loop 0 still_points = 0 \<and>
   m_straightness (analyzeTrajectory still_points) = NaN"
  by (simp add: held_still_points)
     (simp add: still_points_def analyzeTrajectory_def point_dist_def straightDistance_of_def
       Let_def)

text \<open>
  Claim C6, evaluated on the code. On the same trajectory no point has a velocity other
  than \<open>0\<close>, the list of velocities is empty, the average velocity is \<open>0 / 0\<close> and the
  smoothness is \<open>NaN\<close>.
\<close>

theorem analyzeTrajectory_still_smoothness:
  "trajectoryPoints held_still = still_points \<and>
   length still_points = 2 \<and>
   velocities_of still_points = [] \<and>
   avgVelocity_of (velocities_of still_points) = NaN \<and>
   m_smoothness (analyzeTrajectory still_points) = NaN"
  by (simp add: held_still_points)
     (simp add: still_points_def analyzeTrajectory_def velocities_of_def avgVelocity_of_def
       velocityVariance_of_def smoothness_of_def Let_def)

text \<open>
  The release that follows logs these metrics: the interaction that \<open>trackPointerUp\<close>
  records carries the straightness and the smoothness \<open>NaN\<close>.
\<close>

lemma held_still_release:
  "i_data (last (interactions (call (Up 1100 1100 (click_at 10 10) None False) held_still))) =
     PointerUpData (10, 10) None 100 0
       \<lparr>m_pathLength = Num 0, m_straightDistance = Some (Num 0), m_straightness = NaN,
        m_smoothness = NaN, m_pointCount = 2, m_averageVelocity = Some NaN\<rparr> False"
proof -
  have m: "analyzeTrajectory still_points =
       \<lparr>m_pathLength = Num 0, m_straightDistance = Some (Num 0), m_straightness = NaN,
        m_smoothness = NaN, m_pointCount = 2, m_averageVelocity = Some NaN\<rparr>"
    by (simp add: still_points_def analyzeTrajectory_def point_dist_def straightDistance_of_def
        velocities_of_def avgVelocity_of_def velocityVariance_of_def smoothness_of_def Let_def)
  have t: "touchStartTimes held_still ''screen'' = Some 1000" "lastTapTime held_still = 0"
    by (simp_all add: held_still_def run_def trackPointerDown_def logInteraction_def
        addToBuffer_def setTimeout_def BATCH_SIZE_def
        trackPointerMove_def track_velocity_def store_sample_def last_point_time_def
        new_tracker_def touch_key_def MOVE_TRACK_INTERVAL_def SAMPLE_INTERVAL_def Let_def)
  show ?thesis
    by (simp add: trackPointerUp_def logInteraction_def held_still_points m t touch_key_def
        addToBuffer_def flushBatch_def setTimeout_def clearTimeout_def Let_def
        split: option.splits)
qed

text \<open>A trajectory of fewer than two points has the neutral metrics.\<close>

lemma analyzeTrajectory_short:
  "length pts < 2 \<Longrightarrow>
   analyzeTrajectory pts =
     \<lparr>m_pathLength = Num 0, m_straightDistance = None, m_straightness = Num 1,
      m_smoothness = Num 1, m_pointCount = length pts, m_averageVelocity = None\<rparr>"
  by (simp add: analyzeTrajectory_def)

text \<open>
  Where the two divisions are safe: the straightness of a path of non-zero length is in
  \<open>[0, 1]\<close> (the straight distance is at most the path length), and the smoothness is a
  number in \<open>(0, 1]\<close> when the list of velocities is not empty and all are positive. A
  path of length \<open>0\<close> has straightness \<open>NaN\<close>, an empty list of velocities has smoothness
  \<open>NaN\<close>.
\<close>

lemma point_dist_cmod:
  "point_dist p q = cmod (Complex (tp_x q - tp_x p) (tp_y q - tp_y p))"
  by (simp add: point_dist_def cmod_def power2_eq_square Let_def)

lemma point_dist_triangle: "point_dist p r \<le> point_dist p q + point_dist q r"
proof -
  have "Complex (tp_x r - tp_x p) (tp_y r - tp_y p)
          = Complex (tp_x q - tp_x p) (tp_y q - tp_y p) + Complex (tp_x r - tp_x q) (tp_y r - tp_y q)"
    by (simp add: complex_eq_iff)
  then show ?thesis
    unfolding point_dist_cmod by (simp add: norm_triangle_ineq)
qed

lemma point_dist_nonneg: "0 \<le> point_dist p q"
  by (simp add: point_dist_cmod)

lemma point_dist_same: "point_dist p p = 0"
  by (simp add: point_dist_def)

lemma pathLength_loop_acc: "pathLength_loop acc ps = acc + pathLength_loop 0 ps"
proof (induction ps arbitrary: acc)
  case Nil
  then show ?case by simp
next
  case (Cons p ps)
  show ?case
  proof (cases ps)
    case Nil
    then show ?thesis by simp
  next
    case (Cons q qs)
    have "pathLength_loop (acc + point_dist p q) ps = acc + point_dist p q + pathLength_loop 0 ps"
      by (rule Cons.IH)
    moreover have "pathLength_loop (point_dist p q) ps = point_dist p q + pathLength_loop 0 ps"
      by (rule Cons.IH)
    ultimately show ?thesis using Cons by simp
  qed
qed

lemma straight_le_path:
  "pts \<noteq> [] \<Longrightarrow> point_dist (hd pts) (last pts) \<le> pathLength_loop 0 pts"
proof (induction pts)
  case Nil
  then show ?case by simp
next
  case (Cons p ps)
  show ?case
  proof (cases ps)
    case Nil
    then show ?thesis by (simp add: point_dist_same)
  next
    case (Cons q qs)
    with Cons.IH have ih: "point_dist q (last ps) \<le> pathLength_loop 0 ps" by simp
    have "point_dist p (last ps) \<le> point_dist p q + point_dist q (last ps)"
      by (rule point_dist_triangle)
    also have "\<dots> \<le> point_dist p q + pathLength_loop 0 ps" using ih by simp
    also have "\<dots> = pathLength_loop (point_dist p q) ps" by (rule pathLength_loop_acc [symmetric])
    finally show ?thesis using Cons by simp
  qed
qed

lemma straightDistance_of_point_dist:
  "straightDistance_of pts = point_dist (hd pts) (last pts)"
  by (simp add: straightDistance_of_def point_dist_def power2_eq_square Let_def)

lemma toFixed_unit:
  assumes "0 \<le> a" and "a \<le> 1"
  shows "\<exists>r. toFixed k (Num a) = Num r \<and> 0 \<le> r \<and> r \<le> 1"
proof -
  have "\<lfloor>a * 10 ^ k + 1 / 2\<rfloor> \<le> \<lfloor>(10::real) ^ k + 1 / 2\<rfloor>"
    using assms by (intro floor_mono) (simp add: mult_left_le_one_le)
  also have "\<lfloor>(10::real) ^ k + 1 / 2\<rfloor> = 10 ^ k"
    by (rule floor_unique) simp_all
  finally have up: "\<lfloor>a * 10 ^ k + 1 / 2\<rfloor> \<le> 10 ^ k" .
  have lo: "0 \<le> \<lfloor>a * 10 ^ k + 1 / 2\<rfloor>" using assms by simp
  have "of_int \<lfloor>a * 10 ^ k + 1 / 2\<rfloor> \<le> (10::real) ^ k"
    using up by (metis of_int_le_iff of_int_numeral of_int_power)
  then have u: "of_int \<lfloor>a * 10 ^ k + 1 / 2\<rfloor> / (10::real) ^ k \<le> 1"
    by (simp add: divide_le_eq)
  have l: "0 \<le> of_int \<lfloor>a * 10 ^ k + 1 / 2\<rfloor> / (10::real) ^ k"
    using lo by simp
  show ?thesis
  proof (cases "a = 0")
    case True
    then show ?thesis by simp
  next
    case False
    with assms have "sgn a = 1" "\<bar>a\<bar> = a" by simp_all
    with u l show ?thesis by simp
  qed
qed

lemma analyzeTrajectory_straightness_bounds:
  assumes "2 \<le> length pts" and "pathLength_loop 0 pts \<noteq> 0"
  shows "\<exists>r. m_straightness (analyzeTrajectory pts) = Num r \<and> 0 \<le> r \<and> r \<le> 1"
proof -
  from assms(1) have ne: "pts \<noteq> []" by auto
  let ?sd = "straightDistance_of pts"
  let ?pl = "pathLength_loop 0 pts"
  have sd: "0 \<le> ?sd" "?sd \<le> ?pl"
    using straight_le_path [OF ne] by (simp_all add: straightDistance_of_point_dist point_dist_nonneg)
  with assms(2) have "0 < ?pl" by simp
  with sd have "0 \<le> ?sd / ?pl" "?sd / ?pl \<le> 1" by simp_all
  from toFixed_unit [OF this, of 3] obtain r where
    "toFixed 3 (Num (?sd / ?pl)) = Num r" "0 \<le> r" "r \<le> 1" by blast
  with assms show ?thesis by (simp add: analyzeTrajectory_def Let_def)
qed

lemma analyzeTrajectory_straightness_NaN:
  assumes "2 \<le> length pts" and "pathLength_loop 0 pts = 0"
  shows "m_straightness (analyzeTrajectory pts) = NaN"
proof -
  from assms(1) have ne: "pts \<noteq> []" by auto
  have "0 \<le> straightDistance_of pts" "straightDistance_of pts \<le> pathLength_loop 0 pts"
    using straight_le_path [OF ne] by (simp_all add: straightDistance_of_point_dist point_dist_nonneg)
  with assms(2) have "straightDistance_of pts = 0" by simp
  with assms show ?thesis by (simp add: analyzeTrajectory_def Let_def)
qed

lemma foldl_plus_pos:
  "vs \<noteq> [] \<Longrightarrow> \<forall>v\<in>set vs. 0 < v \<Longrightarrow> s < foldl (+) s (vs :: real list)"
proof (induction vs arbitrary: s)
  case Nil
  then show ?case by simp
next
  case (Cons v vs)
  show ?case
  proof (cases "vs = []")
    case True
    with Cons.prems show ?thesis by simp
  next
    case False
    with Cons.prems have "s + v < foldl (+) (s + v) vs" by (intro Cons.IH) simp_all
    with Cons.prems show ?thesis by simp
  qed
qed

lemma foldl_squares_Num:
  "foldl (\<lambda>sum v. js_add sum (js_pow2 (js_sub (Num v) (Num a)))) (Num s) vs
     = Num (foldl (\<lambda>sum v. sum + (v - a)\<^sup>2) s vs)"
  by (induction vs arbitrary: s) (simp_all add: js_sub_def)

lemma foldl_squares_ge: "s \<le> foldl (\<lambda>sum v. sum + (v - a)\<^sup>2) s (vs :: real list)"
proof (induction vs arbitrary: s)
  case Nil
  then show ?case by simp
next
  case (Cons v vs)
  have "s \<le> s + (v - a)\<^sup>2" by simp
  also have "\<dots> \<le> foldl (\<lambda>sum v. sum + (v - a)\<^sup>2) (s + (v - a)\<^sup>2) vs" by (rule Cons.IH)
  finally show ?case by simp
qed

lemma smoothness_of_positive:
  assumes "vs \<noteq> []" and "\<forall>v\<in>set vs. 0 < v"
  shows "\<exists>r. smoothness_of vs = Num r \<and> 0 < r \<and> r \<le> 1"
proof -
  define n where "n = real (length vs)"
  define a where "a = foldl (+) 0 vs / n"
  define W where "W = foldl (\<lambda>sum v. sum + (v - a)\<^sup>2) 0 vs / n"
  define x where "x = sqrt W / a"
  from assms(1) have n: "0 < n" by (simp add: n_def)
  from foldl_plus_pos [OF assms, of 0] n have a: "0 < a" by (simp add: a_def)
  have avg: "avgVelocity_of vs = Num a"
    using n by (simp add: avgVelocity_of_def a_def n_def)
  have var: "velocityVariance_of vs = Num W"
    unfolding velocityVariance_of_def avg foldl_squares_Num W_def
    using n by (simp add: n_def)
  have W: "0 \<le> W" using foldl_squares_ge [of 0 a vs] n by (simp add: W_def)
  then have "0 \<le> sqrt W" by simp
  then have x: "0 \<le> x" unfolding x_def by (rule divide_nonneg_pos [OF _ a])
  have s1: "js_sqrt (Num W) = Num (sqrt W)" using W by simp
  have s2: "js_div (Num (sqrt W)) (Num a) = Num x" using a by (simp add: x_def)
  have s3: "js_add (Num 1) (Num x) = Num (1 + x)" by simp
  have s4: "js_div (Num 1) (Num (1 + x)) = Num (1 / (1 + x))" using x by simp
  have "smoothness_of vs = Num (1 / (1 + x))"
    unfolding smoothness_of_def avg var s1 s2 s3 s4 by (rule refl)
  moreover have "0 < 1 / (1 + x)" "1 / (1 + x) \<le> 1" using x by simp_all
  ultimately show ?thesis by blast
qed

lemma smoothness_of_empty: "smoothness_of [] = NaN"
  by (simp add: smoothness_of_def avgVelocity_of_def velocityVariance_of_def)

section \<open>Properties of the overshoot detection\<close>

lemma minDist_loop_Num:
  "minDist_loop (Num m) pos bs = Num (Min (insert m (bubble_dist pos ` set bs)))"
proof (induction bs arbitrary: m)
  case Nil
  then show ?case by simp
next
  case (Cons b bs)
  have "Min (insert m (insert (bubble_dist pos b) (bubble_dist pos ` set bs)))
          = Min (insert (min (bubble_dist pos b) m) (bubble_dist pos ` set bs))"
  proof (cases "bs = []")
    case True
    then show ?thesis by (simp add: min.commute)
  next
    case False
    then show ?thesis by (simp add: min.assoc min.commute min.left_commute)
  qed
  with Cons.IH show ?case by (simp add: min_def not_less)
qed

lemma minDist_loop_nearest:
  "bubbles \<noteq> [] \<Longrightarrow>
   minDist_loop PosInf pos bubbles = Num (Min (bubble_dist pos ` set bubbles))"
  by (cases bubbles) (simp_all add: minDist_loop_Num)

lemma bubble_dist_euclid:
  "bubble_dist pos = (\<lambda>b. sqrt ((fst pos - b_x b)\<^sup>2 + (snd pos - b_y b)\<^sup>2))"
  by (rule ext) (simp add: bubble_dist_def power2_eq_square Let_def)

lemma minDist_loop_nearest_distance:
  "bubbles \<noteq> [] \<Longrightarrow> minDist_loop PosInf pos bubbles = Num (nearest_distance pos bubbles)"
  unfolding nearest_distance_def bubble_dist_euclid [symmetric] by (rule minDist_loop_nearest)

lemma overshoot_detected_pushed:
  "overshoot_detected (if length (h @ [d]) > 100 then tl (h @ [d]) else h @ [d]) =
     (2 \<le> length h \<and>
      js_less (h ! (length h - 1)) (h ! (length h - 2)) \<and>
      js_less (h ! (length h - 1)) d \<and>
      js_less d (Num (BUBBLE_RADIUS * 4)))"
proof (cases "length (h @ [d]) > 100")
  case False
  show ?thesis
  proof (cases "2 \<le> length h")
    case True
    then have "length h - 2 < length h" "length h - 1 < length h" by arith+
    then have "(h @ [d]) ! (length h - 2) = h ! (length h - 2)"
      "(h @ [d]) ! (length h - 1) = h ! (length h - 1)"
      by (simp_all add: nth_append)
    with True False show ?thesis
      by (simp add: overshoot_detected_def Let_def numeral_3_eq_3 numeral_2_eq_2 Suc_diff_Suc)
  next
    case short: False
    with False show ?thesis by (simp add: overshoot_detected_def)
  qed
next
  case True
  then have n: "100 \<le> length h" by simp
  then have a: "length h - 3 < length (tl (h @ [d]))" "length h - 2 < length (tl (h @ [d]))"
    "length h - 1 < length (tl (h @ [d]))"
    by simp_all
  from n have s: "Suc (length h - 3) = length h - 2" "Suc (length h - 2) = length h - 1"
    "Suc (length h - 1) = length h"
    by arith+
  from n have l: "length h - 2 < length h" "length h - 1 < length h" by arith+
  have "tl (h @ [d]) ! (length h - 3) = (h @ [d]) ! (length h - 2)"
    using nth_tl [OF a(1)] s(1) by simp
  then have i3: "tl (h @ [d]) ! (length h - 3) = h ! (length h - 2)"
    using l(1) by (simp add: nth_append)
  have "tl (h @ [d]) ! (length h - 2) = (h @ [d]) ! (length h - 1)"
    using nth_tl [OF a(2)] s(2) by simp
  then have i2: "tl (h @ [d]) ! (length h - 2) = h ! (length h - 1)"
    using l(2) by (simp add: nth_append)
  have "tl (h @ [d]) ! (length h - 1) = (h @ [d]) ! (length h)"
    using nth_tl [OF a(3)] s(3) by simp
  then have i1: "tl (h @ [d]) ! (length h - 1) = d"
    by simp
  note i3 i2 i1
  with True n show ?thesis
    by (simp add: overshoot_detected_def Let_def)
qed

lemma pushed_history_nearest:
  "bubbles \<noteq> [] \<Longrightarrow>
   pushed_history history pos bubbles =
     (if length history \<ge> 100 then tl history @ [Num (nearest_distance pos bubbles)]
      else history @ [Num (nearest_distance pos bubbles)])"
  by (cases history) (simp_all add: pushed_history_def minDist_loop_nearest_distance Let_def)

lemma history_reset_iff:
  assumes "bubbles \<noteq> []"
  shows "(sampleCursorPosition_history history pos bubbles = []) =
           (2 \<le> length history \<and>
            js_less (history ! (length history - 1)) (history ! (length history - 2)) \<and>
            js_less (history ! (length history - 1)) (Num (nearest_distance pos bubbles)) \<and>
            nearest_distance pos bubbles < 4 * BUBBLE_RADIUS)"
proof -
  let ?d = "Num (nearest_distance pos bubbles)"
  have p: "pushed_history history pos bubbles =
             (if length (history @ [?d]) > 100 then tl (history @ [?d]) else history @ [?d])"
    using assms by (simp add: pushed_history_def minDist_loop_nearest_distance Let_def)
  have ne: "pushed_history history pos bubbles \<noteq> []"
    unfolding p by (cases history) simp_all
  have "(sampleCursorPosition_history history pos bubbles = []) =
          overshoot_detected (pushed_history history pos bubbles)"
    using assms ne by (simp add: sampleCursorPosition_history_def)
  also have "\<dots> = (2 \<le> length history \<and>
            js_less (history ! (length history - 1)) (history ! (length history - 2)) \<and>
            js_less (history ! (length history - 1)) ?d \<and>
            js_less ?d (Num (BUBBLE_RADIUS * 4)))"
    unfolding p by (rule overshoot_detected_pushed)
  finally show ?thesis by (simp add: mult.commute)
qed

lemma history_kept:
  assumes "bubbles \<noteq> []" and "sampleCursorPosition_history history pos bubbles \<noteq> []"
  shows "sampleCursorPosition_history history pos bubbles =
           (if length history \<ge> 100 then tl history @ [Num (nearest_distance pos bubbles)]
            else history @ [Num (nearest_distance pos bubbles)])"
  using assms
  by (simp add: sampleCursorPosition_history_def pushed_history_nearest split: if_splits)

lemma interactions_trackPointerMove:
  "interactions (trackPointerMove now w h ev st) = interactions st \<and>
   interactionBuffer (trackPointerMove now w h ev st) = interactionBuffer st \<and>
   requests (trackPointerMove now w h ev st) = requests st \<and>
   console_errors (trackPointerMove now w h ev st) = console_errors st"
  by (simp add: trackPointerMove_def store_sample_def track_velocity_def Let_def
      split: option.splits)

lemma sqrt_25: "sqrt 25 = 5"
  by (rule real_sqrt_unique) simp_all

lemma sqrt_9801: "sqrt 9801 = 99"
  by (rule real_sqrt_unique) simp_all

lemma sqrt_10000: "sqrt 10000 = 100"
  by (rule real_sqrt_unique) simp_all

lemma nearest_two: "nearest_distance (0, 0) [bubble_at 3 4, bubble_at 0 2] = 2"
  by (simp add: nearest_distance_def bubble_at_def sqrt_25)

lemma nearest_99: "nearest_distance (0, 0) [bubble_at 0 99] = 99"
  by (simp add: nearest_distance_def bubble_at_def sqrt_9801)

lemma nearest_100: "nearest_distance (0, 0) [bubble_at 0 100] = 100"
  by (simp add: nearest_distance_def bubble_at_def sqrt_10000)

text \<open>
  Claim C8, as the code has it. Without a bubble the distance history is left as it is.
  With bubbles the distance to the nearest one is pushed, and the history is emptied
  exactly when it held at least two distances, the last of them strictly below the one
  before it, and the new distance is strictly above the last and strictly below four times
  \<open>BUBBLE_RADIUS\<close>; otherwise the history is the old one with the new distance pushed, cut
  to its last 100 entries. After a reset the next two samples cannot reset again: they
  leave one and two distances. Emptying the history is all that happens: the run of
  \<open>sampleCursorPosition\<close> adds no interaction to the tracker's log or buffer, makes no
  request and logs nothing.
\<close>

theorem overshoot_reset:
  "(bubbles = [] \<longrightarrow> sampleCursorPosition_history history pos bubbles = history) \<and>
   (bubbles \<noteq> [] \<longrightarrow>
      (sampleCursorPosition_history history pos bubbles = []) =
        (2 \<le> length history \<and>
         js_less (history ! (length history - 1)) (history ! (length history - 2)) \<and>
         js_less (history ! (length history - 1)) (Num (nearest_distance pos bubbles)) \<and>
         nearest_distance pos bubbles < 4 * BUBBLE_RADIUS)) \<and>
   (bubbles \<noteq> [] \<and> sampleCursorPosition_history history pos bubbles \<noteq> [] \<longrightarrow>
      sampleCursorPosition_history history pos bubbles =
        (if length history \<ge> 100 then tl history @ [Num (nearest_distance pos bubbles)]
         else history @ [Num (nearest_distance pos bubbles)])) \<and>
   (bubbles' \<noteq> [] \<and> bubbles'' \<noteq> [] \<longrightarrow>
      sampleCursorPosition_history [] pos' bubbles' = [Num (nearest_distance pos' bubbles')] \<and>
      sampleCursorPosition_history (sampleCursorPosition_history [] pos' bubbles') pos'' bubbles''
        = [Num (nearest_distance pos' bubbles'), Num (nearest_distance pos'' bubbles'')]) \<and>
   snd (sampleCursorPosition True now w h (Some pos) bubbles (trk, history))
     = sampleCursorPosition_history history pos bubbles \<and>
   interactions (fst (sampleCursorPosition playing now w h pp bubbles (trk, history)))
     = interactions trk \<and>
   interactionBuffer (fst (sampleCursorPosition playing now w h pp bubbles (trk, history)))
     = interactionBuffer trk \<and>
   requests (fst (sampleCursorPosition playing now w h pp bubbles (trk, history)))
     = requests trk \<and>
   console_errors (fst (sampleCursorPosition playing now w h pp bubbles (trk, history)))
     = console_errors trk"
proof -
  have 1: "bubbles = [] \<longrightarrow> sampleCursorPosition_history history pos bubbles = history"
    by (simp add: sampleCursorPosition_history_def)
  have 2: "bubbles \<noteq> [] \<longrightarrow>
      (sampleCursorPosition_history history pos bubbles = []) =
        (2 \<le> length history \<and>
         js_less (history ! (length history - 1)) (history ! (length history - 2)) \<and>
         js_less (history ! (length history - 1)) (Num (nearest_distance pos bubbles)) \<and>
         nearest_distance pos bubbles < 4 * BUBBLE_RADIUS)"
    using history_reset_iff [of bubbles history pos] by blast
  have 3: "bubbles \<noteq> [] \<and> sampleCursorPosition_history history pos bubbles \<noteq> [] \<longrightarrow>
      sampleCursorPosition_history history pos bubbles =
        (if length history \<ge> 100 then tl history @ [Num (nearest_distance pos bubbles)]
         else history @ [Num (nearest_distance pos bubbles)])"
    using history_kept [of bubbles history pos] by blast
  have 4: "bubbles' \<noteq> [] \<and> bubbles'' \<noteq> [] \<longrightarrow>
      sampleCursorPosition_history [] pos' bubbles' = [Num (nearest_distance pos' bubbles')] \<and>
      sampleCursorPosition_history (sampleCursorPosition_history [] pos' bubbles') pos'' bubbles''
        = [Num (nearest_distance pos' bubbles'), Num (nearest_distance pos'' bubbles'')]"
  proof
    assume b: "bubbles' \<noteq> [] \<and> bubbles'' \<noteq> []"
    then have n1: "sampleCursorPosition_history [] pos' bubbles' \<noteq> []"
      using history_reset_iff [of bubbles' "[]" pos'] by simp
    with b have e1: "sampleCursorPosition_history [] pos' bubbles'
        = [Num (nearest_distance pos' bubbles')]"
      using history_kept [of bubbles' "[]" pos'] by simp
    from b have n2: "sampleCursorPosition_history [Num (nearest_distance pos' bubbles')] pos'' bubbles''
        \<noteq> []"
      using history_reset_iff [of bubbles'' "[Num (nearest_distance pos' bubbles')]" pos''] by simp
    with b have e2: "sampleCursorPosition_history [Num (nearest_distance pos' bubbles')] pos'' bubbles''
        = [Num (nearest_distance pos' bubbles'), Num (nearest_distance pos'' bubbles'')]"
      using history_kept [of bubbles'' "[Num (nearest_distance pos' bubbles')]" pos''] by simp
    from e1 e2 show "sampleCursorPosition_history [] pos' bubbles'
        = [Num (nearest_distance pos' bubbles')] \<and>
      sampleCursorPosition_history (sampleCursorPosition_history [] pos' bubbles') pos'' bubbles''
        = [Num (nearest_distance pos' bubbles'), Num (nearest_distance pos'' bubbles'')]"
      by simp
  qed
  have 5: "snd (sampleCursorPosition True now w h (Some pos) bubbles (trk, history))
     = sampleCursorPosition_history history pos bubbles"
    by (simp add: sampleCursorPosition_def)
  have 6: "interactions (fst (sampleCursorPosition playing now w h pp bubbles (trk, history)))
       = interactions trk"
    "interactionBuffer (fst (sampleCursorPosition playing now w h pp bubbles (trk, history)))
       = interactionBuffer trk"
    "requests (fst (sampleCursorPosition playing now w h pp bubbles (trk, history)))
       = requests trk"
    "console_errors (fst (sampleCursorPosition playing now w h pp bubbles (trk, history)))
       = console_errors trk"
    by (simp_all add: sampleCursorPosition_def interactions_trackPointerMove split: option.splits)
  from 1 2 3 4 5 6 show ?thesis by (intro conjI)
qed

text \<open>
  The pointer at \<open>(0, 0)\<close> and bubbles at \<open>(3, 4)\<close> and \<open>(0, 2)\<close>: the nearest is at distance
  \<open>2\<close>. After the distances \<open>9\<close> and \<open>1\<close> this is an overshoot and the history is emptied;
  after \<open>9\<close> and \<open>3\<close> the pointer is still approaching and \<open>2\<close> is pushed (the distance
  \<open>5\<close> to the first bubble would have been an overshoot). A bubble at distance \<open>99\<close> after
  \<open>200\<close> and \<open>50\<close> is an overshoot, one at distance \<open>100\<close> is not; nor is \<open>99\<close> after
  \<open>3\<close> and \<open>3\<close> (no approach) or after \<open>200\<close> and \<open>99\<close> (no retreat). Without a bubble
  the history stays.
\<close>

theorem overshoot_reset_witness:
  "[bubble_at 3 4, bubble_at 0 2] \<noteq> [] \<and>
   nearest_distance (0, 0) [bubble_at 3 4, bubble_at 0 2] = 2 \<and>
   sampleCursorPosition_history [Num 9, Num 1] (0, 0) [bubble_at 3 4, bubble_at 0 2] = [] \<and>
   sampleCursorPosition_history [Num 9, Num 3] (0, 0) [bubble_at 3 4, bubble_at 0 2]
     = [Num 9, Num 3, Num 2] \<and>
   sampleCursorPosition_history [Num 200, Num 50] (0, 0) [bubble_at 0 99] = [] \<and>
   sampleCursorPosition_history [Num 200, Num 50] (0, 0) [bubble_at 0 100]
     = [Num 200, Num 50, Num 100] \<and>
   sampleCursorPosition_history [Num 9, Num 1] (0, 0) [] = [Num 9, Num 1] \<and>
   sampleCursorPosition_history [Num 3, Num 3] (0, 0) [bubble_at 0 99]
     = [Num 3, Num 3, Num 99] \<and>
   sampleCursorPosition_history [Num 200, Num 99] (0, 0) [bubble_at 0 99]
     = [Num 200, Num 99, Num 99] \<and>
   sampleCursorPosition_history
     (sampleCursorPosition_history [] (0, 0) [bubble_at 0 99]) (0, 0) [bubble_at 0 100]
     = [Num 99, Num 100]"
proof -
  let ?two = "[bubble_at 3 4, bubble_at 0 2]"
  have ne: "?two \<noteq> []" "[bubble_at 0 99] \<noteq> []" "[bubble_at 0 100] \<noteq> []" by simp_all
  have a: "sampleCursorPosition_history [Num 9, Num 1] (0, 0) ?two = []"
    using overshoot_reset [of ?two "[Num 9, Num 1]" "(0, 0)"]
    by (simp add: nearest_two BUBBLE_RADIUS_def)
  have "sampleCursorPosition_history [Num 9, Num 3] (0, 0) ?two \<noteq> []"
    using overshoot_reset [of ?two "[Num 9, Num 3]" "(0, 0)"]
    by (simp add: nearest_two BUBBLE_RADIUS_def)
  then have b: "sampleCursorPosition_history [Num 9, Num 3] (0, 0) ?two = [Num 9, Num 3, Num 2]"
    using overshoot_reset [of ?two "[Num 9, Num 3]" "(0, 0)"]
    by (simp add: nearest_two)
  have c: "sampleCursorPosition_history [Num 200, Num 50] (0, 0) [bubble_at 0 99] = []"
    using overshoot_reset [of "[bubble_at 0 99]" "[Num 200, Num 50]" "(0, 0)"]
    by (simp add: nearest_99 BUBBLE_RADIUS_def)
  have "sampleCursorPosition_history [Num 200, Num 50] (0, 0) [bubble_at 0 100] \<noteq> []"
    using overshoot_reset [of "[bubble_at 0 100]" "[Num 200, Num 50]" "(0, 0)"]
    by (simp add: nearest_100 BUBBLE_RADIUS_def)
  then have d: "sampleCursorPosition_history [Num 200, Num 50] (0, 0) [bubble_at 0 100]
      = [Num 200, Num 50, Num 100]"
    using overshoot_reset [of "[bubble_at 0 100]" "[Num 200, Num 50]" "(0, 0)"]
    by (simp add: nearest_100)
  have e: "sampleCursorPosition_history [Num 9, Num 1] (0, 0) [] = [Num 9, Num 1]"
    using overshoot_reset [of "[]" "[Num 9, Num 1]" "(0, 0)"] by simp
  have "sampleCursorPosition_history [Num 3, Num 3] (0, 0) [bubble_at 0 99] \<noteq> []"
    using overshoot_reset [of "[bubble_at 0 99]" "[Num 3, Num 3]" "(0, 0)"]
    by (simp add: nearest_99 BUBBLE_RADIUS_def)
  then have g: "sampleCursorPosition_history [Num 3, Num 3] (0, 0) [bubble_at 0 99]
      = [Num 3, Num 3, Num 99]"
    using overshoot_reset [of "[bubble_at 0 99]" "[Num 3, Num 3]" "(0, 0)"]
    by (simp add: nearest_99)
  have "sampleCursorPosition_history [Num 200, Num 99] (0, 0) [bubble_at 0 99] \<noteq> []"
    using overshoot_reset [of "[bubble_at 0 99]" "[Num 200, Num 99]" "(0, 0)"]
    by (simp add: nearest_99 BUBBLE_RADIUS_def)
  then have k: "sampleCursorPosition_history [Num 200, Num 99] (0, 0) [bubble_at 0 99]
      = [Num 200, Num 99, Num 99]"
    using overshoot_reset [of "[bubble_at 0 99]" "[Num 200, Num 99]" "(0, 0)"]
    by (simp add: nearest_99)
  have f: "sampleCursorPosition_history
     (sampleCursorPosition_history [] (0, 0) [bubble_at 0 99]) (0, 0) [bubble_at 0 100]
     = [Num 99, Num 100]"
  proof -
    have pq: "[bubble_at 0 99] \<noteq> [] \<and> [bubble_at 0 100] \<noteq> []" by simp
    note t = overshoot_reset [THEN conjunct2, THEN conjunct2, THEN conjunct2, THEN conjunct1,
        of "[bubble_at 0 99]" "[bubble_at 0 100]" "(0, 0)" "(0, 0)"]
    from mp [OF t pq, THEN conjunct2] show ?thesis
      unfolding nearest_99 nearest_100 .
  qed
  from ne nearest_two a b c d e g k f show ?thesis by simp
qed

text \<open>
  The distances \<open>9\<close>, \<open>1\<close>, then \<open>2\<close> to the nearest bubble are an overshoot by the test of
  the code, and the run that meets it leaves the tracker and the history exactly as a run
  with no bubble and no history does: the tracker's log is empty and nothing marks the
  overshoot.
\<close>

theorem overshoot_leaves_no_flag:
  "overshoot_detected [Num 9, Num 1, Num 2] \<and>
   sampleCursorPosition True 1000 (Num 800) (Num 600) (Some (0, 0))
       [bubble_at 3 4, bubble_at 0 2] (new_tracker ''s1'' None ''p1'', [Num 9, Num 1])
     = sampleCursorPosition True 1000 (Num 800) (Num 600) (Some (0, 0))
         [] (new_tracker ''s1'' None ''p1'', []) \<and>
   snd (sampleCursorPosition True 1000 (Num 800) (Num 600) (Some (0, 0))
       [bubble_at 3 4, bubble_at 0 2] (new_tracker ''s1'' None ''p1'', [Num 9, Num 1])) = [] \<and>
   interactions (fst (sampleCursorPosition True 1000 (Num 800) (Num 600) (Some (0, 0))
       [bubble_at 3 4, bubble_at 0 2] (new_tracker ''s1'' None ''p1'', [Num 9, Num 1]))) = [] \<and>
   requests (fst (sampleCursorPosition True 1000 (Num 800) (Num 600) (Some (0, 0))
       [bubble_at 3 4, bubble_at 0 2] (new_tracker ''s1'' None ''p1'', [Num 9, Num 1]))) = []"
proof -
  have d: "overshoot_detected [Num 9, Num 1, Num 2]"
    by (simp add: overshoot_detected_def BUBBLE_RADIUS_def Let_def)
  have r: "sampleCursorPosition_history [Num 9, Num 1] (0, 0) [bubble_at 3 4, bubble_at 0 2] = []"
    using history_reset_iff [of "[bubble_at 3 4, bubble_at 0 2]" "[Num 9, Num 1]" "(0, 0)"]
    by (simp add: nearest_two BUBBLE_RADIUS_def)
  have e: "sampleCursorPosition_history [] (0, 0) [] = []"
    by (simp add: sampleCursorPosition_history_def)
  have i: "interactions (new_tracker ''s1'' None ''p1'') = []"
    "requests (new_tracker ''s1'' None ''p1'') = []"
    by (simp_all add: new_tracker_def)
  from d r e i show ?thesis
    by (simp add: sampleCursorPosition_def interactions_trackPointerMove)
qed

end
